theory Spec2Isabelle
  imports Main "HOL-Library.Word" "HOL-Library.Multiset"
begin

section \<open>Values exchanged with the custodial service\<close>

text \<open>
  The client of \<^verbatim>\<open>src/fordefi/client.ts\<close> and the signing adapter built on it
  (\<^verbatim>\<open>fordefiSigner\<close>) are embedded as functions over an explicit client object and an
  explicit record of the outside world. JavaScript values that the code builds itself
  (request bodies) are \<open>jsval\<close>s; an absent optional property is \<open>JUndefined\<close>.
\<close>

type_synonym byte = "8 word"

datatype jsval =
    JUndefined
  | JNull
  | JBool bool
  | JNum int
  | JStr string
  | JArr "jsval list"
  | JObj "(string \<times> jsval) list"

text \<open>Truthiness of a value, as tested by \<^verbatim>\<open>if (v)\<close>, \<^verbatim>\<open>v ? a : b\<close> and \<^verbatim>\<open>!v\<close>.\<close>

fun js_truthy :: "jsval \<Rightarrow> bool" where
  "js_truthy JUndefined = False"
| "js_truthy JNull = False"
| "js_truthy (JBool b) = b"
| "js_truthy (JNum n) = (n \<noteq> 0)"
| "js_truthy (JStr s) = (s \<noteq> [])"
| "js_truthy (JArr xs) = True"
| "js_truthy (JObj kvs) = True"

text \<open>An optional string (\<^verbatim>\<open>string | null | undefined\<close>) is truthy when present and non-empty.\<close>

definition truthy_str :: "string option \<Rightarrow> bool" where
  "truthy_str v = (case v of None \<Rightarrow> False | Some s \<Rightarrow> s \<noteq> [])"

definition opt_str :: "string option \<Rightarrow> jsval" where
  "opt_str v = (case v of None \<Rightarrow> JUndefined | Some s \<Rightarrow> JStr s)"

text \<open>Property lookup on an object literal; a missing property reads as \<^verbatim>\<open>undefined\<close>.\<close>

fun js_prop :: "jsval \<Rightarrow> string \<Rightarrow> jsval" where
  "js_prop (JObj kvs) k = (case map_of kvs k of None \<Rightarrow> JUndefined | Some v \<Rightarrow> v)"
| "js_prop v k = JUndefined"

text \<open>
  Setting a property keeps the position of an existing key and appends a new one;
  object spread \<^verbatim>\<open>{...a, ...b}\<close> copies \<open>a\<close> and then sets every property of \<open>b\<close>.
\<close>

fun obj_set :: "string \<Rightarrow> jsval \<Rightarrow> (string \<times> jsval) list \<Rightarrow> (string \<times> jsval) list" where
  "obj_set k v [] = [(k, v)]"
| "obj_set k v ((k', v') # kvs) = (if k = k' then (k, v) # kvs else (k', v') # obj_set k v kvs)"

definition js_spread :: "(string \<times> jsval) list \<Rightarrow> (string \<times> jsval) list \<Rightarrow> (string \<times> jsval) list" where
  "js_spread a b = fold (\<lambda>(k, v). obj_set k v) b a"

text \<open>Decimal rendering of a non-negative integer inside a template literal.\<close>

definition digit :: "nat \<Rightarrow> char" where
  "digit d = ''0123456789'' ! d"

fun dec :: "nat \<Rightarrow> string" where
  "dec n = (if n < 10 then [digit n] else dec (n div 10) @ [digit (n mod 10)])"

declare dec.simps [simp del]

datatype TransactionType = SolanaTransaction | SolanaMessage | EvmTransaction | EvmMessage

fun TransactionType_value :: "TransactionType \<Rightarrow> string" where
  "TransactionType_value SolanaTransaction = ''solana_transaction''"
| "TransactionType_value SolanaMessage = ''solana_message''"
| "TransactionType_value EvmTransaction = ''evm_transaction''"
| "TransactionType_value EvmMessage = ''evm_message''"

datatype TransactionState =
    Created
  | WaitingForApproval
  | WaitingForSignature
  | ReadyForPush
  | Pushed
  | Completed
  | Failed
  | Aborted

datatype Mode = Auto | Manual

fun Mode_value :: "Mode \<Rightarrow> string" where
  "Mode_value Auto = ''auto''"
| "Mode_value Manual = ''manual''"

record ChainRef =
  unique_id :: string
  chain_name :: string

record SignatureEntry =
  signature :: string
  public_key :: string

text \<open>
  The interface \<^verbatim>\<open>TransactionResponse\<close>; \<^verbatim>\<open>id\<close>, \<^verbatim>\<open>type\<close> and \<^verbatim>\<open>chain\<close> carry a suffix.
\<close>

record TransactionResponse =
  id_field :: string
  creation_time :: string
  modification_time :: string
  state :: TransactionState
  vault_id :: string
  type_field :: TransactionType
  chain_field :: ChainRef
  transaction_hash :: "string option"
  signatures :: "SignatureEntry list option"

text \<open>The body of the answer to \<^verbatim>\<open>POST /auth\<close>: only its \<^verbatim>\<open>accessToken\<close> property is read.\<close>

record AuthData =
  data_accessToken :: "string option"

record Options =
  note_field :: "string option"
  idempotenceId :: "string option"
  signMode :: "Mode option"
  pushMode :: "Mode option"
  timeout :: "int option"

record Transaction =
  messageBytes :: "byte list"

section \<open>The outside world\<close>

datatype Method = GET | POST

record http_request =
  req_method :: Method
  req_url :: string
  req_headers :: "(string \<times> string) list"
  req_body :: "string option"

record 'd AxiosResponse =
  status :: nat
  data :: 'd

record 'd AxiosError =
  message :: string
  response :: "'d AxiosResponse option"

text \<open>
  What a call handed to axios comes back with: the promise resolves with a response, or it
  rejects with an error that may or may not carry a response.
\<close>

datatype 'd outcome = Resolved "'d AxiosResponse" | Rejected "'d AxiosError"

text \<open>
  Library functions and the environment are parameters of the model, so every theorem
  holds whatever they compute:
  \<^item> \<open>hmac_sha256_hex key msg\<close> is \<^verbatim>\<open>createHmac("sha256", key).update(msg).digest("hex")\<close>;
  \<^item> \<open>date_now k\<close> is the value of the \<open>k\<close>-th reading of \<^verbatim>\<open>Date.now()\<close>;
  \<^item> \<open>stringify_body\<close> is \<^verbatim>\<open>JSON.stringify\<close> on a request body;
  \<^item> \<open>stringify_data d\<close> is the text \<^verbatim>\<open>${JSON.stringify(d)}\<close> of a response body, \<open>None\<close>
    when \<^verbatim>\<open>JSON.stringify\<close> throws, and \<open>text_of_data d\<close> is \<^verbatim>\<open>${d}\<close>;
  \<^item> \<open>base64_of_bytes\<close> is \<^verbatim>\<open>Buffer.from(bytes).toString("base64")\<close> and
    \<open>bytes_of_base64\<close> is \<^verbatim>\<open>Buffer.from(text, "base64")\<close>;
  \<^item> \<open>env_api_key\<close> and \<open>env_api_secret\<close> are \<^verbatim>\<open>process.env.FORDEFI_API_KEY\<close> and
    \<^verbatim>\<open>process.env.FORDEFI_API_SECRET\<close>.
\<close>

record 'd Platform =
  hmac_sha256_hex :: "string \<Rightarrow> string \<Rightarrow> string"
  date_now :: "nat \<Rightarrow> nat"
  stringify_body :: "jsval \<Rightarrow> string"
  stringify_data :: "'d \<Rightarrow> string option"
  text_of_data :: "'d \<Rightarrow> string"
  base64_of_bytes :: "byte list \<Rightarrow> string"
  bytes_of_base64 :: "string \<Rightarrow> byte list"
  env_api_key :: string
  env_api_secret :: string

text \<open>
  The world records how often the clock has been read and every request handed to axios,
  in the order of the calls.
\<close>

record World =
  reads :: nat
  sent :: "http_request list"

datatype error = Error string

section \<open>The client\<close>

record FordefiClient =
  apiKey :: string
  apiSecret :: string
  baseURL :: string
  accessToken :: "string option"

text \<open>The constructor: \<^verbatim>\<open>config.baseUrl || "https://api.fordefi.com"\<close>, no token yet.\<close>

definition FordefiClient_new :: "string \<Rightarrow> string \<Rightarrow> string option \<Rightarrow> FordefiClient" where
  "FordefiClient_new key secret baseUrl =
     \<lparr> apiKey = key, apiSecret = secret,
       baseURL = (if truthy_str baseUrl then the baseUrl else ''https://api.fordefi.com''),
       accessToken = None \<rparr>"

definition createSignature ::
  "'d Platform \<Rightarrow> FordefiClient \<Rightarrow> string \<Rightarrow> World \<Rightarrow> (string \<times> nat) \<times> World" where
  "createSignature P c body w =
     (let timestamp = date_now P (reads w);
          msg = dec timestamp @ body;
          sg = hmac_sha256_hex P (apiSecret c) msg
      in ((sg, timestamp), w\<lparr>reads := Suc (reads w)\<rparr>))"

text \<open>
  \<^verbatim>\<open>authenticate\<close> runs in two parts, separated by its one \<^verbatim>\<open>await\<close>. The part before
  it returns the cached token, or builds, signs and issues the request to \<^verbatim>\<open>/auth\<close>.
\<close>

datatype auth_started = Cached string | Pending

definition auth_request :: "'d Platform \<Rightarrow> FordefiClient \<Rightarrow> World \<Rightarrow> http_request \<times> World" where
  "auth_request P c w =
     (let requestBody = stringify_body P (JObj [(''apiKey'', JStr (apiKey c))]);
          ((sg, timestamp), w1) = createSignature P c requestBody w
      in (\<lparr> req_method = POST, req_url = baseURL c @ ''/auth'',
             req_headers = [(''Content-Type'', ''application/json''),
                            (''x-signature'', sg), (''x-timestamp'', dec timestamp)],
             req_body = Some requestBody \<rparr>, w1))"

definition authenticate_start ::
  "'d Platform \<Rightarrow> FordefiClient \<Rightarrow> World \<Rightarrow> auth_started \<times> World" where
  "authenticate_start P c w =
     (if truthy_str (accessToken c) then (Cached (the (accessToken c)), w)
      else (let (rq, w1) = auth_request P c w
            in (Pending, w1\<lparr>sent := sent w1 @ [rq]\<rparr>)))"

text \<open>
  The part after the \<^verbatim>\<open>await\<close>, inside \<^verbatim>\<open>try\<close>: a rejected call throws; a response has
  its \<^verbatim>\<open>accessToken\<close> stored in the client before the stored value is tested.
\<close>

definition authenticate_try ::
  "AuthData outcome \<Rightarrow> FordefiClient \<Rightarrow> (string + string) \<times> FordefiClient" where
  "authenticate_try out c =
     (case out of
        Rejected err \<Rightarrow> (Inl (message err), c)
      | Resolved resp \<Rightarrow>
          (let c' = c\<lparr>accessToken := data_accessToken (data resp)\<rparr>
           in if \<not> truthy_str (accessToken c')
              then (Inl ''No access token received from Fordefi'', c')
              else (Inr (the (accessToken c')), c')))"

text \<open>The \<^verbatim>\<open>catch\<close> block replaces whatever was thrown inside \<^verbatim>\<open>try\<close>.\<close>

definition authenticate_finish ::
  "AuthData outcome \<Rightarrow> FordefiClient \<Rightarrow> (error + string) \<times> FordefiClient" where
  "authenticate_finish out c =
     (case authenticate_try out c of
        (Inl thrown, c') \<Rightarrow> (Inl (Error ''Failed to authenticate with Fordefi''), c')
      | (Inr token, c') \<Rightarrow> (Inr token, c'))"

text \<open>A call of \<^verbatim>\<open>authenticate\<close> that nothing else interleaves with.\<close>

definition authenticate ::
  "'d Platform \<Rightarrow> AuthData outcome \<Rightarrow> FordefiClient \<Rightarrow> World
     \<Rightarrow> (error + string) \<times> FordefiClient \<times> World" where
  "authenticate P auth_out c w =
     (case authenticate_start P c w of
        (Cached token, w') \<Rightarrow> (Inr token, c, w')
      | (Pending, w') \<Rightarrow>
          (let (r, c') = authenticate_finish auth_out c in (r, c', w')))"

text \<open>
  The body of \<^verbatim>\<open>request\<close> after authentication. An error thrown inside \<^verbatim>\<open>try\<close> is either
  the function's own \<^verbatim>\<open>Error\<close> or an axios rejection; the \<^verbatim>\<open>catch\<close> block reads its
  \<^verbatim>\<open>response\<close> and \<^verbatim>\<open>message\<close> properties.
\<close>

datatype 'd thrown = OwnError string | AxiosRejection "'d AxiosError"

fun thrown_response :: "'d thrown \<Rightarrow> 'd AxiosResponse option" where
  "thrown_response (OwnError m) = None"
| "thrown_response (AxiosRejection err) = response err"

fun thrown_message :: "'d thrown \<Rightarrow> string" where
  "thrown_message (OwnError m) = m"
| "thrown_message (AxiosRejection err) = message err"

definition http_error_message :: "'d Platform \<Rightarrow> 'd AxiosResponse \<Rightarrow> string" where
  "http_error_message P resp =
     ''HTTP error occurred: status = '' @ dec (status resp) @
     (case stringify_data P (data resp) of
        Some detail \<Rightarrow> [CHR 0x0A] @ ''Error details: '' @ detail
      | None \<Rightarrow> [CHR 0x0A] @ ''Raw response: '' @ text_of_data P (data resp))"

definition request_try :: "'d Platform \<Rightarrow> 'd outcome \<Rightarrow> 'd thrown + 'd" where
  "request_try P api_out =
     (case api_out of
        Rejected err \<Rightarrow> Inl (AxiosRejection err)
      | Resolved resp \<Rightarrow>
          if status resp < 200 \<or> status resp \<ge> 300
          then Inl (OwnError (http_error_message P resp))
          else Inr (data resp))"

definition request_catch :: "'d Platform \<Rightarrow> 'd thrown \<Rightarrow> error" where
  "request_catch P thrown =
     (case thrown_response thrown of
        Some resp \<Rightarrow> Error (http_error_message P resp)
      | None \<Rightarrow> Error (''Network error occurred: '' @ thrown_message thrown))"

definition request_settle :: "'d Platform \<Rightarrow> 'd outcome \<Rightarrow> error + 'd" where
  "request_settle P api_out =
     (case request_try P api_out of
        Inl thrown \<Rightarrow> Inl (request_catch P thrown)
      | Inr d \<Rightarrow> Inr d)"

text \<open>
  The request that \<^verbatim>\<open>request\<close> hands to axios once it holds a token. A \<^verbatim>\<open>GET\<close> carries
  no body and no signature; a \<^verbatim>\<open>POST\<close> signs \<open>requestBody\<close> and sends the same string.
\<close>

definition api_request ::
  "'d Platform \<Rightarrow> FordefiClient \<Rightarrow> Method \<Rightarrow> string \<Rightarrow> jsval \<Rightarrow> string \<Rightarrow> World
     \<Rightarrow> http_request \<times> World" where
  "api_request P c method path body token w =
     (let url = baseURL c @ path;
          requestBody = (if js_truthy body then stringify_body P body else [])
      in case method of
           GET \<Rightarrow>
             (\<lparr> req_method = GET, req_url = url,
                req_headers = [(''Authorization'', ''Bearer '' @ token),
                               (''Content-Type'', ''application/json'')],
                req_body = None \<rparr>, w)
         | POST \<Rightarrow>
             (let ((sg, timestamp), w1) = createSignature P c requestBody w
              in (\<lparr> req_method = POST, req_url = url,
                     req_headers = [(''Authorization'', ''Bearer '' @ token),
                                    (''x-signature'', sg), (''x-timestamp'', dec timestamp),
                                    (''Content-Type'', ''application/json'')],
                     req_body = Some requestBody \<rparr>, w1)))"

text \<open>
  \<^verbatim>\<open>request\<close>: \<^verbatim>\<open>await this.authenticate()\<close> stands before the \<^verbatim>\<open>try\<close>, so a failed
  authentication leaves the function as it is. \<open>auth_out\<close> is what the call to \<^verbatim>\<open>/auth\<close>
  comes back with if one is made, \<open>api_out\<close> what the call to \<open>path\<close> comes back with.
\<close>

definition request ::
  "'d Platform \<Rightarrow> Method \<Rightarrow> string \<Rightarrow> jsval \<Rightarrow> AuthData outcome \<Rightarrow> 'd outcome
     \<Rightarrow> FordefiClient \<Rightarrow> World \<Rightarrow> (error + 'd) \<times> FordefiClient \<times> World" where
  "request P method path body auth_out api_out c w =
     (case authenticate P auth_out c w of
        (Inl e, c1, w1) \<Rightarrow> (Inl e, c1, w1)
      | (Inr token, c1, w1) \<Rightarrow>
          (let (rq, w2) = api_request P c1 method path body token w1
           in (request_settle P api_out, c1, w2\<lparr>sent := sent w2 @ [rq]\<rparr>)))"

text \<open>\<^verbatim>\<open>try { ... } catch (error) { console.error(...); throw error; }\<close>\<close>

definition rethrow :: "error + 'a \<Rightarrow> error + 'a" where
  "rethrow r = (case r of Inl e \<Rightarrow> Inl e | Inr v \<Rightarrow> Inr v)"

definition txRequest ::
  "'d Platform \<Rightarrow> string \<Rightarrow> byte list \<Rightarrow> string \<Rightarrow> Options \<Rightarrow> (string \<times> jsval) list" where
  "txRequest P vaultId transaction chain options =
     (let serializedTx = base64_of_bytes P transaction
      in [(''type'', JStr (TransactionType_value SolanaTransaction)),
          (''vault_id'', JStr vaultId),
          (''transaction'', JStr serializedTx),
          (''chain'', JStr chain),
          (''idempotence_id'', opt_str (idempotenceId options)),
          (''note'', opt_str (note_field options)),
          (''sign_mode'', opt_str (map_option Mode_value (signMode options))),
          (''push_mode'', opt_str (map_option Mode_value (pushMode options)))])"

definition requestOptions :: "Options \<Rightarrow> (string \<times> jsval) list" where
  "requestOptions options =
     (case timeout options of
        None \<Rightarrow> []
      | Some t \<Rightarrow> if t \<noteq> 0 then [(''timeout'', JNum t)] else [])"

definition createAndWait_body ::
  "'d Platform \<Rightarrow> string \<Rightarrow> byte list \<Rightarrow> string \<Rightarrow> Options \<Rightarrow> jsval" where
  "createAndWait_body P vaultId transaction chain options =
     JObj (js_spread (txRequest P vaultId transaction chain options) (requestOptions options))"

definition createAndWaitTransaction ::
  "TransactionResponse Platform \<Rightarrow> string \<Rightarrow> byte list \<Rightarrow> string \<Rightarrow> Options
     \<Rightarrow> AuthData outcome \<Rightarrow> TransactionResponse outcome
     \<Rightarrow> FordefiClient \<Rightarrow> World \<Rightarrow> (error + TransactionResponse) \<times> FordefiClient \<times> World" where
  "createAndWaitTransaction P vaultId transaction chain options auth_out api_out c w =
     (let (r, c', w') =
            request P POST ''/v1/transactions/create-and-wait''
              (createAndWait_body P vaultId transaction chain options) auth_out api_out c w
      in (rethrow r, c', w'))"

section \<open>The signing adapter\<close>

text \<open>
  The options of member \<open>index\<close>:
  \<^verbatim>\<open>{...options, idempotenceId: options.idempotenceId ? `${options.idempotenceId}-${index}` : undefined}\<close>.
\<close>

definition member_options :: "Options \<Rightarrow> nat \<Rightarrow> Options" where
  "member_options options index =
     options\<lparr>idempotenceId :=
       (if truthy_str (idempotenceId options)
        then Some (the (idempotenceId options) @ ''-'' @ dec index)
        else None)\<rparr>"

text \<open>The body that member \<open>index\<close> of a batch submits to the create-and-wait endpoint.\<close>

definition member_body ::
  "TransactionResponse Platform \<Rightarrow> string \<Rightarrow> string \<Rightarrow> Options \<Rightarrow> Transaction list \<Rightarrow> nat \<Rightarrow> jsval" where
  "member_body P vaultId chain options transactions index =
     createAndWait_body P vaultId (messageBytes (transactions ! index)) chain
       (member_options options index)"

text \<open>What the callback does with the response of its submission.\<close>

definition extract_signature ::
  "TransactionResponse Platform \<Rightarrow> nat \<Rightarrow> TransactionResponse \<Rightarrow> error + byte list" where
  "extract_signature P index resp =
     (case signatures resp of
        None \<Rightarrow> Inl (Error (''No signature returned for transaction '' @ dec index))
      | Some [] \<Rightarrow> Inl (Error (''No signature returned for transaction '' @ dec index))
      | Some (first # others) \<Rightarrow>
          (let signatureBuffer = bytes_of_base64 P (signature first)
           in if length signatureBuffer \<noteq> 64
              then Inl (Error (''Invalid signature length: '' @ dec (length signatureBuffer) @
                               '', expected 64 bytes''))
              else Inr signatureBuffer))"

text \<open>
  The callbacks of \<^verbatim>\<open>transactions.map(async (tx, index) => ...)\<close> share one client and run
  interleaved: each runs until its next \<^verbatim>\<open>await\<close>, and is resumed when what it awaits
  has arrived. A member is waiting for its call to \<^verbatim>\<open>/auth\<close>, waiting to go on with a
  token that was cached, waiting for its submission, or settled.
\<close>

datatype member = AwaitAuth | AwaitToken string | AwaitApi | Settled "error + byte list"

record Batch =
  client :: FordefiClient
  world :: World
  members :: "member list"
  rejection :: "error option"

text \<open>
  The callback up to its first \<^verbatim>\<open>await\<close>: through \<^verbatim>\<open>createAndWaitTransaction\<close> and
  \<^verbatim>\<open>request\<close> it reaches \<^verbatim>\<open>authenticate\<close>, which looks at the token of the shared client.
\<close>

definition member_start :: "TransactionResponse Platform \<Rightarrow> Batch \<Rightarrow> Batch" where
  "member_start P b =
     (case authenticate_start P (client b) (world b) of
        (Pending, w') \<Rightarrow> b\<lparr>world := w', members := members b @ [AwaitAuth]\<rparr>
      | (Cached token, w') \<Rightarrow> b\<lparr>world := w', members := members b @ [AwaitToken token]\<rparr>)"

text \<open>
  A member settles once; \<^verbatim>\<open>Promise.all\<close> rejects with the reason of the first member
  that rejects.
\<close>

definition settle :: "nat \<Rightarrow> error + byte list \<Rightarrow> Batch \<Rightarrow> Batch" where
  "settle i r b =
     b\<lparr>members := (members b)[i := Settled r],
       rejection := (case rejection b of
                       Some e \<Rightarrow> Some e
                     | None \<Rightarrow> (case r of Inl e \<Rightarrow> Some e | Inr v \<Rightarrow> None))\<rparr>"

definition issue ::
  "TransactionResponse Platform \<Rightarrow> string \<Rightarrow> string \<Rightarrow> Options \<Rightarrow> Transaction list
     \<Rightarrow> nat \<Rightarrow> string \<Rightarrow> Batch \<Rightarrow> Batch" where
  "issue P vaultId chain options transactions i token b =
     (let (rq, w') = api_request P (client b) POST ''/v1/transactions/create-and-wait''
                       (member_body P vaultId chain options transactions i) token (world b)
      in b\<lparr>world := w'\<lparr>sent := sent w' @ [rq]\<rparr>, members := (members b)[i := AwaitApi]\<rparr>)"

text \<open>
  Member \<open>i\<close> is resumed: with the answer \<open>auth_out i\<close> to its call to \<^verbatim>\<open>/auth\<close>, or with
  the answer \<open>api_out i\<close> to its submission.
\<close>

definition resume ::
  "TransactionResponse Platform \<Rightarrow> string \<Rightarrow> string \<Rightarrow> Options \<Rightarrow> Transaction list
     \<Rightarrow> (nat \<Rightarrow> AuthData outcome) \<Rightarrow> (nat \<Rightarrow> TransactionResponse outcome)
     \<Rightarrow> nat \<Rightarrow> Batch \<Rightarrow> Batch" where
  "resume P vaultId chain options transactions auth_out api_out i b =
     (if i \<ge> length (members b) then b
      else case members b ! i of
          AwaitAuth \<Rightarrow>
            (case authenticate_finish (auth_out i) (client b) of
               (Inl e, c') \<Rightarrow> settle i (Inl e) (b\<lparr>client := c'\<rparr>)
             | (Inr token, c') \<Rightarrow>
                 issue P vaultId chain options transactions i token (b\<lparr>client := c'\<rparr>))
        | AwaitToken token \<Rightarrow> issue P vaultId chain options transactions i token b
        | AwaitApi \<Rightarrow>
            (case rethrow (request_settle P (api_out i)) of
               Inl e \<Rightarrow> settle i (Inl e) b
             | Inr resp \<Rightarrow> settle i (extract_signature P i resp) b)
        | Settled r \<Rightarrow> b)"

fun settled_values :: "member list \<Rightarrow> byte list list option" where
  "settled_values [] = Some []"
| "settled_values (Settled (Inr v) # ms) = map_option ((#) v) (settled_values ms)"
| "settled_values (m # ms) = None"

text \<open>The state of \<^verbatim>\<open>Promise.all(signaturePromises)\<close>; \<open>None\<close> while it is pending.\<close>

definition promise_all :: "Batch \<Rightarrow> (error + byte list list) option" where
  "promise_all b =
     (case rejection b of
        Some e \<Rightarrow> Some (Inl e)
      | None \<Rightarrow> map_option Inr (settled_values (members b)))"

text \<open>
  \<^verbatim>\<open>signAndSendTransactions\<close>: a new client from the environment, every callback started in
  input order, then the members resumed in the order \<open>schedule\<close> in which the network
  answers; continuations that \<open>schedule\<close> leaves out run after it, by index. The result is
  the state of the returned promise and the world at the end.
\<close>

definition signAndSendTransactions ::
  "TransactionResponse Platform \<Rightarrow> string \<Rightarrow> string \<Rightarrow> Options \<Rightarrow> Transaction list
     \<Rightarrow> (nat \<Rightarrow> AuthData outcome) \<Rightarrow> (nat \<Rightarrow> TransactionResponse outcome)
     \<Rightarrow> nat list \<Rightarrow> World \<Rightarrow> (error + byte list list) option \<times> World" where
  "signAndSendTransactions P vaultId chain options transactions auth_out api_out schedule w =
     (let fordefiClient = FordefiClient_new (env_api_key P) (env_api_secret P) None;
          n = length transactions;
          b0 = \<lparr> client = fordefiClient, world = w, members = [], rejection = None \<rparr>;
          b1 = fold (\<lambda>tx. member_start P) transactions b0;
          b2 = fold (resume P vaultId chain options transactions auth_out api_out)
                 (schedule @ [0..<n] @ [0..<n]) b1
      in (promise_all b2, world b2))"

text \<open>
  The callback of member \<open>index\<close> run on its own, with nothing interleaved: what
  \<^verbatim>\<open>createAndWaitTransaction\<close> returns to it, and what it makes of that.
\<close>

definition signaturePromise ::
  "TransactionResponse Platform \<Rightarrow> string \<Rightarrow> string \<Rightarrow> Options \<Rightarrow> Transaction list
     \<Rightarrow> (nat \<Rightarrow> AuthData outcome) \<Rightarrow> (nat \<Rightarrow> TransactionResponse outcome)
     \<Rightarrow> nat \<Rightarrow> FordefiClient \<Rightarrow> World \<Rightarrow> (error + byte list) \<times> FordefiClient \<times> World" where
  "signaturePromise P vaultId chain options transactions auth_out api_out index c w =
     (let (r, c', w') =
            createAndWaitTransaction P vaultId (messageBytes (transactions ! index)) chain
              (member_options options index) (auth_out index) (api_out index) c w
      in (case r of Inl e \<Rightarrow> Inl e | Inr resp \<Rightarrow> extract_signature P index resp, c', w'))"

text \<open>
  What \<^verbatim>\<open>createAndWaitTransaction\<close> returns to member \<open>index\<close>, and what the promise of
  member \<open>index\<close> settles with, when the callback runs on its own on a new client.
\<close>

definition member_response ::
  "TransactionResponse Platform \<Rightarrow> string \<Rightarrow> string \<Rightarrow> Options \<Rightarrow> Transaction list
     \<Rightarrow> (nat \<Rightarrow> AuthData outcome) \<Rightarrow> (nat \<Rightarrow> TransactionResponse outcome)
     \<Rightarrow> nat \<Rightarrow> error + TransactionResponse" where
  "member_response P vaultId chain options transactions auth_out api_out index =
     fst (createAndWaitTransaction P vaultId (messageBytes (transactions ! index)) chain
            (member_options options index) (auth_out index) (api_out index)
            (FordefiClient_new (env_api_key P) (env_api_secret P) None) \<lparr> reads = 0, sent = [] \<rparr>)"

definition member_result ::
  "TransactionResponse Platform \<Rightarrow> string \<Rightarrow> string \<Rightarrow> Options \<Rightarrow> Transaction list
     \<Rightarrow> (nat \<Rightarrow> AuthData outcome) \<Rightarrow> (nat \<Rightarrow> TransactionResponse outcome)
     \<Rightarrow> nat \<Rightarrow> error + byte list" where
  "member_result P vaultId chain options transactions auth_out api_out index =
     fst (signaturePromise P vaultId chain options transactions auth_out api_out index
            (FordefiClient_new (env_api_key P) (env_api_secret P) None) \<lparr> reads = 0, sent = [] \<rparr>)"

text \<open>How many requests to \<^verbatim>\<open>/auth\<close> under \<open>base\<close> have been handed to axios.\<close>

definition auth_calls :: "string \<Rightarrow> World \<Rightarrow> nat" where
  "auth_calls base w = length (filter (\<lambda>rq. req_url rq = base @ ''/auth'') (sent w))"

text \<open>
  The bodies of the requests to the create-and-wait endpoint under \<open>base\<close> that have been
  handed to axios, in the order of the calls.
\<close>

definition submitted :: "string \<Rightarrow> World \<Rightarrow> string option list" where
  "submitted base w =
     map req_body
       (filter (\<lambda>rq. req_url rq = base @ ''/v1/transactions/create-and-wait'') (sent w))"

text \<open>The answer to a call to \<^verbatim>\<open>/auth\<close> is a response that carries a truthy token.\<close>

definition answers_token :: "AuthData outcome \<Rightarrow> bool" where
  "answers_token out =
     (case out of
        Rejected err \<Rightarrow> False
      | Resolved resp \<Rightarrow> truthy_str (data_accessToken (data resp)))"

text \<open>
  For the proofs about interleaved runs: the continuations a member still has to run, and
  what holds of a batch at every moment. No member waits with a cached token, a member
  waiting for its submission has a token, a settled member has settled with \<open>R\<close>, and the
  recorded rejection is that of a settled member.
\<close>

fun steps_left :: "member \<Rightarrow> nat" where
  "steps_left AwaitAuth = 2"
| "steps_left (AwaitToken token) = 2"
| "steps_left AwaitApi = 1"
| "steps_left (Settled r) = 0"

definition batch_inv ::
  "(nat \<Rightarrow> AuthData outcome) \<Rightarrow> (nat \<Rightarrow> error + byte list) \<Rightarrow> Batch \<Rightarrow> bool" where
  "batch_inv auth_out R b \<longleftrightarrow>
     (\<forall>i<length (members b).
        case members b ! i of
          AwaitAuth \<Rightarrow> True
        | AwaitToken token \<Rightarrow> False
        | AwaitApi \<Rightarrow> \<forall>c. \<not> isl (fst (authenticate_finish (auth_out i) c))
        | Settled r \<Rightarrow> r = R i) \<and>
     (rejection b = None \<longrightarrow>
        (\<forall>i<length (members b). \<forall>e. members b ! i \<noteq> Settled (Inl e))) \<and>
     (\<forall>e. rejection b = Some e \<longrightarrow>
        (\<exists>i<length (members b). members b ! i = Settled (Inl e)))"

section \<open>A concrete platform for running the model\<close>

text \<open>
  The theorems below hold for every platform. To run the model on examples, the library
  functions are given concrete versions: JSON text of a value, base64 with the standard
  alphabet, and a tag in place of the digest, which no result depends on.
\<close>

definition hex_digit :: "nat \<Rightarrow> char" where
  "hex_digit d = ''0123456789abcdef'' ! d"

definition json_escape :: "char \<Rightarrow> string" where
  "json_escape c =
     (if c = CHR 0x22 then [CHR 0x5C, CHR 0x22]
      else if c = CHR 0x5C then [CHR 0x5C, CHR 0x5C]
      else if c = CHR 0x08 then [CHR 0x5C, CHR ''b'']
      else if c = CHR 0x0C then [CHR 0x5C, CHR ''f'']
      else if c = CHR 0x0A then [CHR 0x5C, CHR ''n'']
      else if c = CHR 0x0D then [CHR 0x5C, CHR ''r'']
      else if c = CHR 0x09 then [CHR 0x5C, CHR ''t'']
      else if of_char c < (32::nat)
      then [CHR 0x5C, CHR ''u'', CHR ''0'', CHR ''0'',
            hex_digit (of_char c div 16), hex_digit (of_char c mod 16)]
      else [c])"

definition json_quote :: "string \<Rightarrow> string" where
  "json_quote s = [CHR 0x22] @ concat (map json_escape s) @ [CHR 0x22]"

fun commas :: "string list \<Rightarrow> string" where
  "commas [] = []"
| "commas [x] = x"
| "commas (x # y # ys) = x @ '','' @ commas (y # ys)"

fun json_text :: "jsval \<Rightarrow> string" where
  "json_text JUndefined = ''null''"
| "json_text JNull = ''null''"
| "json_text (JBool b) = (if b then ''true'' else ''false'')"
| "json_text (JNum n) = (if n < 0 then ''-'' @ dec (nat (- n)) else dec (nat n))"
| "json_text (JStr s) = json_quote s"
| "json_text (JArr xs) = ''['' @ commas (map json_text xs) @ '']''"
| "json_text (JObj kvs) =
     ''{'' @ commas (map (\<lambda>(k, v). json_quote k @ '':'' @ json_text v)
                      (filter (\<lambda>(k, v). v \<noteq> JUndefined) kvs)) @ ''}''"

text \<open>\<^verbatim>\<open>${JSON.stringify(v)}\<close> and \<^verbatim>\<open>${v}\<close> for a response body that is a JSON value.\<close>

definition json_stringify :: "jsval \<Rightarrow> string option" where
  "json_stringify v = (if v = JUndefined then Some ''undefined'' else Some (json_text v))"

fun js_string :: "jsval \<Rightarrow> string" where
  "js_string JUndefined = ''undefined''"
| "js_string JNull = ''null''"
| "js_string (JBool b) = (if b then ''true'' else ''false'')"
| "js_string (JNum n) = (if n < 0 then ''-'' @ dec (nat (- n)) else dec (nat n))"
| "js_string (JStr s) = s"
| "js_string (JArr xs) = commas (map js_string xs)"
| "js_string (JObj kvs) = ''[object Object]''"

definition base64_alphabet :: string where
  "base64_alphabet = ''ABCDEFGHIJKLMNOPQRSTUVWXYZabcdefghijklmnopqrstuvwxyz0123456789+/''"

fun index_of :: "'a \<Rightarrow> 'a list \<Rightarrow> nat option" where
  "index_of x [] = None"
| "index_of x (y # ys) = (if x = y then Some 0 else map_option Suc (index_of x ys))"

fun sextets_to_bytes :: "nat list \<Rightarrow> nat list" where
  "sextets_to_bytes (a # b # c # d # rest) =
     [a * 4 + b div 16, (b mod 16) * 16 + c div 4, (c mod 4) * 64 + d] @ sextets_to_bytes rest"
| "sextets_to_bytes [a, b, c] = [a * 4 + b div 16, (b mod 16) * 16 + c div 4]"
| "sextets_to_bytes [a, b] = [a * 4 + b div 16]"
| "sextets_to_bytes rest = []"

definition base64_decode :: "string \<Rightarrow> byte list" where
  "base64_decode s =
     map of_nat (sextets_to_bytes
       (concat (map (\<lambda>c. case index_of c base64_alphabet of None \<Rightarrow> [] | Some v \<Rightarrow> [v])
                    (takeWhile (\<lambda>c. c \<noteq> CHR ''='') s))))"

fun bytes_to_base64 :: "nat list \<Rightarrow> string" where
  "bytes_to_base64 (a # b # c # rest) =
     [base64_alphabet ! (a div 4), base64_alphabet ! ((a mod 4) * 16 + b div 16),
      base64_alphabet ! ((b mod 16) * 4 + c div 64), base64_alphabet ! (c mod 64)]
     @ bytes_to_base64 rest"
| "bytes_to_base64 [a, b] =
     [base64_alphabet ! (a div 4), base64_alphabet ! ((a mod 4) * 16 + b div 16),
      base64_alphabet ! ((b mod 16) * 4), CHR ''='']"
| "bytes_to_base64 [a] =
     [base64_alphabet ! (a div 4), base64_alphabet ! ((a mod 4) * 16), CHR ''='', CHR ''='']"
| "bytes_to_base64 [] = []"

definition base64_encode :: "byte list \<Rightarrow> string" where
  "base64_encode bs = bytes_to_base64 (map unat bs)"

definition digest_tag :: "string \<Rightarrow> string \<Rightarrow> string" where
  "digest_tag key msg = ''hmac('' @ key @ '','' @ msg @ '')''"

definition node :: "('d \<Rightarrow> string option) \<Rightarrow> ('d \<Rightarrow> string) \<Rightarrow> 'd Platform" where
  "node stringify text =
     \<lparr> hmac_sha256_hex = digest_tag,
       date_now = (\<lambda>k. 1000 + k),
       stringify_body = json_text,
       stringify_data = stringify,
       text_of_data = text,
       base64_of_bytes = base64_encode,
       bytes_of_base64 = base64_decode,
       env_api_key = ''key'',
       env_api_secret = ''secret'' \<rparr>"

text \<open>
  Sample data: a new client, an empty world, a signature of 64 zero bytes in base64, a job,
  and two platforms. \<open>json_node\<close> is for response bodies that are JSON values;
  \<open>jobs_node\<close> is for response bodies that are jobs, which the examples never render.
\<close>

definition client0 :: FordefiClient where
  "client0 = FordefiClient_new ''key'' ''secret'' None"

definition world0 :: World where
  "world0 = \<lparr> reads = 0, sent = [] \<rparr>"

definition sig64 :: string where
  "sig64 = replicate 86 CHR ''A'' @ ''==''"

definition sample_job :: "TransactionState \<Rightarrow> SignatureEntry list option \<Rightarrow> TransactionResponse" where
  "sample_job st sigs =
     \<lparr> id_field = ''job-1'', creation_time = ''t0'', modification_time = ''t1'', state = st,
       vault_id = ''vault'', type_field = SolanaTransaction,
       chain_field = \<lparr> unique_id = ''solana_mainnet'', chain_name = ''Solana'' \<rparr>,
       transaction_hash = None, signatures = sigs \<rparr>"

definition sample_entry :: "string \<Rightarrow> SignatureEntry" where
  "sample_entry s = \<lparr> signature = s, public_key = ''pk'' \<rparr>"

definition ok :: "'d \<Rightarrow> 'd outcome" where
  "ok d = Resolved \<lparr> status = 200, data = d \<rparr>"

definition token_ok :: "AuthData outcome" where
  "token_ok = ok \<lparr> data_accessToken = Some ''tok'' \<rparr>"

definition no_options :: Options where
  "no_options = \<lparr> note_field = None, idempotenceId = None, signMode = None, pushMode = None,
                   timeout = None \<rparr>"

definition tx0 :: Transaction where
  "tx0 = \<lparr> messageBytes = [1, 2, 3] \<rparr>"

definition jobs_node :: "TransactionResponse Platform" where
  "jobs_node = node (\<lambda>d. Some ''{}'') (\<lambda>d. ''[object Object]'')"

definition json_node :: "jsval Platform" where
  "json_node = node json_stringify js_string"

text \<open>The error body \<^verbatim>\<open>{"error":"invalid vault"}\<close> as a value and as text.\<close>

definition invalid_vault :: jsval where
  "invalid_vault = JObj [(''error'', JStr ''invalid vault'')]"

definition invalid_vault_text :: string where
  "invalid_vault_text =
     ''{'' @ [CHR 0x22] @ ''error'' @ [CHR 0x22] @ '':'' @ [CHR 0x22] @ ''invalid vault'' @
     [CHR 0x22] @ ''}''"

text \<open>
  Answers used in the examples: a refused connection, a batch whose second member gets a
  job without signatures, and a batch whose members get jobs with two signatures each.
\<close>

definition refused :: "AuthData outcome" where
  "refused = Rejected \<lparr> message = ''connect ECONNREFUSED 127.0.0.1:443'', response = None \<rparr>"

definition unsigned_second :: "nat \<Rightarrow> TransactionResponse outcome" where
  "unsigned_second i =
     (if i = 1 then ok (sample_job Completed None)
      else ok (sample_job Completed (Some [sample_entry sig64])))"

definition signed_twice :: "nat \<Rightarrow> TransactionResponse outcome" where
  "signed_twice i = ok (sample_job Completed (Some [sample_entry sig64, sample_entry sig64]))"

text \<open>
  Further answers: a status 401 and a lost connection as axios rejects with them, and a batch
  of two in which the call to \<^verbatim>\<open>/auth\<close> of the first member is refused.
\<close>

definition unauthorized :: "AuthData AxiosError" where
  "unauthorized = \<lparr> message = ''Request failed with status code 401'',
                    response = Some \<lparr> status = 401, data = \<lparr> data_accessToken = None \<rparr> \<rparr> \<rparr>"

definition lost :: "jsval AxiosError" where
  "lost = \<lparr> message = ''getaddrinfo ENOTFOUND api.fordefi.com'', response = None \<rparr>"

definition job_lost :: "TransactionResponse AxiosError" where
  "job_lost = \<lparr> message = ''getaddrinfo ENOTFOUND api.fordefi.com'', response = None \<rparr>"



text \<open>
  Options with a base key and with an empty base key, and the JSON text of the body that a
  member submits for \<open>tx0\<close> with a given \<^verbatim>\<open>idempotence_id\<close>.
\<close>

definition keyed :: Options where
  "keyed = no_options\<lparr>idempotenceId := Some ''base''\<rparr>"

definition empty_key :: Options where
  "empty_key = no_options\<lparr>idempotenceId := Some []\<rparr>"

definition sample_body :: "jsval \<Rightarrow> string option" where
  "sample_body idempotence =
     Some (json_text (JObj [(''type'', JStr ''solana_transaction''), (''vault_id'', JStr ''vault''),
                            (''transaction'', JStr ''AQID''), (''chain'', JStr ''solana_mainnet''),
                            (''idempotence_id'', idempotence)]))"

section \<open>Authentication\<close>

lemma authenticate_start_pending:
  "\<not> truthy_str (accessToken c) \<Longrightarrow>
   authenticate_start P c w =
     (Pending, (snd (auth_request P c w))
                 \<lparr>sent := sent (snd (auth_request P c w)) @ [fst (auth_request P c w)]\<rparr>)"
  by (simp add: authenticate_start_def split: prod.splits)

lemma auth_request_world:
  "snd (auth_request P c w) = w\<lparr>reads := Suc (reads w)\<rparr>"
  by (simp add: auth_request_def createSignature_def Let_def)

lemma authenticate_finish_cases:
  "authenticate_finish out c = (r, c') \<Longrightarrow>
     (r = Inl (Error ''Failed to authenticate with Fordefi'') \<and> \<not> truthy_str (accessToken c')) \<or>
     (r = Inl (Error ''Failed to authenticate with Fordefi'') \<and> c' = c) \<or>
     (\<exists>t. r = Inr t \<and> accessToken c' = Some t \<and> t \<noteq> [])"
  by (auto simp: authenticate_finish_def authenticate_try_def truthy_str_def Let_def
           split: outcome.splits option.splits if_splits)

text \<open>
  C4. With a token cached, \<^verbatim>\<open>authenticate\<close> returns that token and leaves the client and
  the world as they are: no request is handed to axios. After a call that has returned a
  token \<open>t\<close>, the next call returns \<open>t\<close> again, whatever the network would answer, and
  again issues nothing.
\<close>

theorem authenticate_cached_token:
  "(accessToken c = Some t \<and> t \<noteq> [] \<longrightarrow> authenticate P auth_out c w = (Inr t, c, w)) \<and>
   (authenticate P auth_out c w = (Inr t, c1, w1) \<longrightarrow>
      authenticate P auth_out' c1 w1 = (Inr t, c1, w1))"
proof (intro conjI impI)
  assume "accessToken c = Some t \<and> t \<noteq> []"
  then show "authenticate P auth_out c w = (Inr t, c, w)"
    by (simp add: authenticate_def authenticate_start_def truthy_str_def)
next
  assume a: "authenticate P auth_out c w = (Inr t, c1, w1)"
  have "accessToken c1 = Some t \<and> t \<noteq> []"
  proof (cases "truthy_str (accessToken c)")
    case True
    with a show ?thesis
      by (auto simp: authenticate_def authenticate_start_def truthy_str_def split: option.splits)
  next
    case False
    with a have "authenticate_finish auth_out c = (Inr t, c1)"
      by (auto simp: authenticate_def authenticate_start_def split: prod.splits)
    then show ?thesis
      by (auto dest: authenticate_finish_cases)
  qed
  then show "authenticate P auth_out' c1 w1 = (Inr t, c1, w1)"
    by (simp add: authenticate_def authenticate_start_def truthy_str_def)
qed

theorem authenticate_cached_token_witness:
  "(accessToken (client0\<lparr>accessToken := Some ''tok''\<rparr>) = Some ''tok'' \<and> ''tok'' \<noteq> [] \<and>
    authenticate jobs_node token_ok (client0\<lparr>accessToken := Some ''tok''\<rparr>) world0
      = (Inr ''tok'', client0\<lparr>accessToken := Some ''tok''\<rparr>, world0)) \<and>
   (fst (authenticate jobs_node token_ok client0 world0) = Inr ''tok'' \<and>
    fst (authenticate jobs_node (Rejected \<lparr> message = ''connect ECONNREFUSED'', response = None \<rparr>)
          (fst (snd (authenticate jobs_node token_ok client0 world0)))
          (snd (snd (authenticate jobs_node token_ok client0 world0)))) = Inr ''tok'')"
proof -
  let ?c = "client0\<lparr>accessToken := Some ''tok''\<rparr>"
  let ?r = "authenticate jobs_node token_ok client0 world0"
  have h1: "accessToken ?c = Some ''tok'' \<and> ''tok'' \<noteq> []" by simp
  have f: "fst ?r = Inr ''tok''" by code_simp
  then have h2: "?r = (Inr ''tok'', fst (snd ?r), snd (snd ?r))"
    by (metis prod.collapse)
  from authenticate_cached_token [of ?c "''tok''" jobs_node token_ok world0]
       authenticate_cached_token [of client0 "''tok''" jobs_node token_ok world0
                                     "fst (snd ?r)" "snd (snd ?r)"]
       h1 h2 f
  show ?thesis by simp
qed




lemma authenticate_finish_fst:
  "fst (authenticate_finish out c) = fst (authenticate_finish out c')"
  by (simp add: authenticate_finish_def authenticate_try_def truthy_str_def Let_def
      split: outcome.splits option.splits)

lemma new_client_no_token [simp]:
  "\<not> truthy_str (accessToken (FordefiClient_new key secret baseUrl))"
  by (simp add: FordefiClient_new_def truthy_str_def)

lemma authenticate_fst_no_token:
  "\<not> truthy_str (accessToken c) \<Longrightarrow>
     fst (authenticate P out c w) = fst (authenticate_finish out c)"
  by (simp add: authenticate_def authenticate_start_def split: prod.splits)

lemma authenticate_error:
  "fst (authenticate P auth_out c w) = Inl e \<Longrightarrow> e = Error ''Failed to authenticate with Fordefi''"
  by (auto simp: authenticate_def authenticate_start_def authenticate_finish_def
        split: prod.splits sum.splits auth_started.splits if_splits)

section \<open>Requests\<close>

lemma rethrow_id: "rethrow r = r"
  by (simp add: rethrow_def split: sum.splits)

lemma request_result:
  "fst (request P method path body auth_out api_out c w) =
     (case fst (authenticate P auth_out c w) of
        Inl e \<Rightarrow> Inl e
      | Inr token \<Rightarrow> request_settle P api_out)"
  by (simp add: request_def split: prod.splits sum.splits)

lemma createAndWait_is_request:
  "createAndWaitTransaction P vaultId transaction chain options auth_out api_out c w =
     request P POST ''/v1/transactions/create-and-wait''
       (createAndWait_body P vaultId transaction chain options) auth_out api_out c w"
  by (simp add: createAndWaitTransaction_def rethrow_id split: prod.splits)

lemma request_settle_Inr:
  "request_settle P api_out = Inr d \<Longrightarrow>
     \<exists>resp. api_out = Resolved resp \<and> d = data resp \<and> 200 \<le> status resp \<and> status resp < 300"
  by (auto simp: request_settle_def request_try_def split: outcome.splits if_splits sum.splits)

text \<open>
  The signature of a request is the digest, keyed by the secret, of the decimal timestamp
  followed by the body; the timestamp goes into \<^verbatim>\<open>x-timestamp\<close>, and the string that is
  signed is the string that is sent.
\<close>

lemma createSignature_value:
  "fst (createSignature P c body w) =
     (hmac_sha256_hex P (apiSecret c) (dec (date_now P (reads w)) @ body), date_now P (reads w))"
  by (simp add: createSignature_def Let_def)

lemma post_signs_what_it_sends:
  "\<exists>sent_body. req_body (fst (api_request P c POST path body token w)) = Some sent_body \<and>
     map_of (req_headers (fst (api_request P c POST path body token w))) ''x-signature''
       = Some (hmac_sha256_hex P (apiSecret c) (dec (date_now P (reads w)) @ sent_body)) \<and>
     map_of (req_headers (fst (api_request P c POST path body token w))) ''x-timestamp''
       = Some (dec (date_now P (reads w)))"
  by (simp add: api_request_def createSignature_def Let_def)

lemma auth_signs_what_it_sends:
  "\<exists>sent_body. req_body (fst (auth_request P c w)) = Some sent_body \<and>
     map_of (req_headers (fst (auth_request P c w))) ''x-signature''
       = Some (hmac_sha256_hex P (apiSecret c) (dec (date_now P (reads w)) @ sent_body))"
  by (simp add: auth_request_def createSignature_def Let_def)

text \<open>
  C3. When \<^verbatim>\<open>createAndWaitTransaction\<close> returns a job, and the server keeps its contract that
  an answer of the create-and-wait endpoint carries a job in a terminal state, the state of
  the returned job is \<open>Completed\<close>, \<open>Failed\<close> or \<open>Aborted\<close>, and none of the transient
  states: the client returns the answer as it is.
\<close>

theorem createAndWait_returns_terminal_job:
  assumes "fst (createAndWaitTransaction P vaultId transaction chain options auth_out api_out c w)
             = Inr returned"
      and "\<forall>resp. api_out = Resolved resp \<longrightarrow> state (data resp) \<in> {Completed, Failed, Aborted}"
  shows "state returned \<in> {Completed, Failed, Aborted} \<and>
         state returned \<notin> {Created, WaitingForApproval, WaitingForSignature, ReadyForPush, Pushed}"
proof -
  from assms(1) have "request_settle P api_out = Inr returned"
    by (simp add: createAndWait_is_request request_result split: sum.splits)
  then obtain resp where "api_out = Resolved resp" and "returned = data resp"
    by (auto dest: request_settle_Inr)
  with assms(2) have "state returned \<in> {Completed, Failed, Aborted}" by simp
  then show ?thesis by auto
qed

theorem createAndWait_returns_terminal_job_witness:
  "fst (createAndWaitTransaction jobs_node ''vault'' [1, 2, 3] ''solana_mainnet'' no_options token_ok
          (ok (sample_job Failed None)) client0 world0) = Inr (sample_job Failed None) \<and>
   state (data \<lparr> status = 200, data = sample_job Failed None \<rparr>) \<in> {Completed, Failed, Aborted} \<and>
   state (sample_job Failed None) \<in> {Completed, Failed, Aborted} \<and>
   state (sample_job Failed None) \<notin> {Created, WaitingForApproval, WaitingForSignature, ReadyForPush, Pushed}"
proof -
  have h1: "fst (createAndWaitTransaction jobs_node ''vault'' [1, 2, 3] ''solana_mainnet'' no_options
                   token_ok (ok (sample_job Failed None)) client0 world0) = Inr (sample_job Failed None)"
    by code_simp
  have h2: "\<forall>resp. ok (sample_job Failed None) = Resolved resp \<longrightarrow>
              state (data resp) \<in> {Completed, Failed, Aborted}"
    by (auto simp: ok_def sample_job_def)
  have h3: "state (data \<lparr> status = 200, data = sample_job Failed None \<rparr>)
              \<in> {Completed, Failed, Aborted}"
    by (simp add: sample_job_def)
  from createAndWait_returns_terminal_job [OF h1 h2] h1 h3 show ?thesis by blast
qed

text \<open>
  C5. With a token at hand, a response whose status is below 200 or at least 300 makes
  \<^verbatim>\<open>request\<close> throw an error whose message holds the status in decimal and the body: the
  text of \<^verbatim>\<open>JSON.stringify\<close> when that succeeds, the raw text otherwise. A response with a
  status in between is not an error, and its data is returned. At status 400 with the body
  \<^verbatim>\<open>{"error":"invalid vault"}\<close> the message holds \<^verbatim>\<open>400\<close> and that text.
\<close>

theorem request_status_outside_2xx:
  assumes "fst (authenticate P auth_out c w) = Inr token"
  shows "fst (request P method path body auth_out (Resolved resp) c w) =
     (if status resp < 200 \<or> 300 \<le> status resp
      then Inl (Error (''Network error occurred: HTTP error occurred: status = '' @ dec (status resp) @
                  (case stringify_data P (data resp) of
                     Some detail \<Rightarrow> [CHR 0x0A] @ ''Error details: '' @ detail
                   | None \<Rightarrow> [CHR 0x0A] @ ''Raw response: '' @ text_of_data P (data resp))))
      else Inr (data resp))"
  using assms
  by (simp add: request_result request_settle_def request_try_def request_catch_def
        http_error_message_def)

theorem request_status_outside_2xx_witness:
  "fst (authenticate json_node token_ok client0 world0) = Inr ''tok'' \<and>
   fst (request json_node POST ''/v1/transactions/create-and-wait'' (JObj []) token_ok
          (Resolved \<lparr> status = 400, data = invalid_vault \<rparr>) client0 world0)
     = Inl (Error (''Network error occurred: HTTP error occurred: status = 400'' @ [CHR 0x0A] @
                   ''Error details: '' @ invalid_vault_text)) \<and>
   fst (request json_node GET ''/v1/wallets/solana'' JUndefined token_ok
          (Resolved \<lparr> status = 204, data = JNull \<rparr>) client0 world0) = Inr JNull"
proof -
  have h: "fst (authenticate json_node token_ok client0 world0) = Inr ''tok''" by code_simp
  have d: "dec 400 = ''400''" by code_simp
  have j: "stringify_data json_node invalid_vault = Some invalid_vault_text" by code_simp
  from request_status_outside_2xx [OF h, of POST "''/v1/transactions/create-and-wait''" "JObj []"
         "\<lparr> status = 400, data = invalid_vault \<rparr>"]
       request_status_outside_2xx [OF h, of GET "''/v1/wallets/solana''" JUndefined
         "\<lparr> status = 204, data = JNull \<rparr>"]
       h d j
  show ?thesis by simp
qed

text \<open>
  The error that \<^verbatim>\<open>request\<close> throws for a status outside 200 to 299 is thrown inside its
  own \<^verbatim>\<open>try\<close>: its own \<^verbatim>\<open>catch\<close> finds no \<^verbatim>\<open>response\<close> on it and throws it again by
  the branch for errors without a response, so its message begins with the words of a network
  error.
\<close>

lemma non_2xx_error_takes_network_branch:
  "status resp < 200 \<or> 300 \<le> status resp \<Longrightarrow>
   request_settle P (Resolved resp)
     = Inl (Error (''Network error occurred: '' @ http_error_message P resp)) \<and>
   request_settle P (Resolved resp)
     = request_settle P (Rejected \<lparr> message = http_error_message P resp, response = None \<rparr>)"
  by (simp add: request_settle_def request_try_def request_catch_def)

text \<open>
  C6. With a token at hand, a request that gets no response makes \<^verbatim>\<open>request\<close> throw the error
  whose message is \<^verbatim>\<open>Network error occurred: \<close> followed by the transport message, and
  nothing else: there is no status to put into it. Unless the transport message itself
  begins like the text of an HTTP error, which the messages of DNS and connection failures
  do not, this error differs from the error of every request that is answered with a status
  outside 200 to 299.
\<close>

theorem request_without_response:
  assumes "fst (authenticate P auth_out c w) = Inr token"
      and "response err = None"
  shows "fst (request P method path body auth_out (Rejected err) c w)
           = Inl (Error (''Network error occurred: '' @ message err)) \<and>
         ((\<forall>rest. message err \<noteq> ''HTTP error occurred: status = '' @ rest) \<longrightarrow>
          (\<forall>P' method' path' body' auth_out' resp c' w'.
              status resp < 200 \<or> 300 \<le> status resp \<longrightarrow>
              fst (request P' method' path' body' auth_out' (Resolved resp) c' w')
                \<noteq> fst (request P method path body auth_out (Rejected err) c w)))"
proof (intro conjI impI allI)
  from assms
  show eq: "fst (request P method path body auth_out (Rejected err) c w)
           = Inl (Error (''Network error occurred: '' @ message err))"
    by (simp add: request_result request_settle_def request_try_def request_catch_def)
  fix P' :: "'a Platform" and method' path' body' auth_out' and resp :: "'a AxiosResponse"
    and c' w'
  assume form: "\<forall>rest. message err \<noteq> ''HTTP error occurred: status = '' @ rest"
     and bad: "status resp < 200 \<or> 300 \<le> status resp"
  have m: "message err \<noteq> http_error_message P' resp"
    using form by (simp add: http_error_message_def)
  show "fst (request P' method' path' body' auth_out' (Resolved resp) c' w')
          \<noteq> fst (request P method path body auth_out (Rejected err) c w)"
  proof (cases "fst (authenticate P' auth_out' c' w')")
    case (Inl e)
    then have "e = Error ''Failed to authenticate with Fordefi''"
      by (rule authenticate_error)
    with Inl eq show ?thesis by (simp add: request_result)
  next
    case (Inr t)
    with bad m eq show ?thesis
      using non_2xx_error_takes_network_branch [OF bad, of P']
      by (simp add: request_result)
  qed
qed

theorem request_without_response_witness:
  "fst (authenticate json_node token_ok client0 world0) = Inr ''tok'' \<and>
   response lost = None \<and>
   fst (request json_node GET ''/v1/wallets/solana'' JUndefined token_ok (Rejected lost)
          client0 world0)
     = Inl (Error ''Network error occurred: getaddrinfo ENOTFOUND api.fordefi.com'') \<and>
   fst (request json_node POST ''/v1/transactions/create-and-wait'' (JObj []) token_ok
          (Resolved \<lparr> status = 400, data = invalid_vault \<rparr>) client0 world0)
     \<noteq> fst (request json_node GET ''/v1/wallets/solana'' JUndefined token_ok (Rejected lost)
            client0 world0)"
proof -
  have h1: "fst (authenticate json_node token_ok client0 world0) = Inr ''tok''" by code_simp
  have h2: "response lost = None" by (simp add: lost_def)
  have h3: "\<forall>rest. message lost \<noteq> ''HTTP error occurred: status = '' @ rest"
    by (simp add: lost_def)
  have h4: "status \<lparr> status = 400, data = invalid_vault \<rparr> < 200 \<or>
            300 \<le> status \<lparr> status = 400, data = invalid_vault \<rparr>" by simp
  note t = request_without_response [OF h1 h2, of GET "''/v1/wallets/solana''" JUndefined]
  from t have r1: "fst (request json_node GET ''/v1/wallets/solana'' JUndefined token_ok
                     (Rejected lost) client0 world0)
     = Inl (Error ''Network error occurred: getaddrinfo ENOTFOUND api.fordefi.com'')"
    by (simp add: lost_def)
  from t h3 h4 have r2: "fst (request json_node POST ''/v1/transactions/create-and-wait'' (JObj [])
          token_ok (Resolved \<lparr> status = 400, data = invalid_vault \<rparr>) client0 world0)
     \<noteq> fst (request json_node GET ''/v1/wallets/solana'' JUndefined token_ok (Rejected lost)
            client0 world0)"
    by blast
  from h1 h2 r1 r2 show ?thesis by blast
qed

section \<open>The members of a batch\<close>

lemma map_of_obj_set: "map_of (obj_set k v kvs) k' = (if k' = k then Some v else map_of kvs k')"
  by (induction kvs) auto

lemma js_prop_createAndWait_body:
  "js_prop (createAndWait_body P vaultId transaction chain options) ''idempotence_id''
     = opt_str (idempotenceId options)"
  by (simp add: createAndWait_body_def js_spread_def txRequest_def requestOptions_def
        map_of_obj_set split: option.splits)

lemma issue_sends_member_body:
  "\<exists>rq. sent (world (issue P vaultId chain options transactions i token b)) = sent (world b) @ [rq] \<and>
     req_url rq = baseURL (client b) @ ''/v1/transactions/create-and-wait'' \<and>
     req_body rq = Some (stringify_body P (member_body P vaultId chain options transactions i))"
  by (simp add: issue_def api_request_def createSignature_def Let_def member_body_def
        createAndWait_body_def)

lemma signaturePromise_fst:
  "fst (signaturePromise P vaultId chain options transactions auth_out api_out i c w) =
     (case fst (createAndWaitTransaction P vaultId (messageBytes (transactions ! i)) chain
                  (member_options options i) (auth_out i) (api_out i) c w) of
        Inl e \<Rightarrow> Inl e
      | Inr resp \<Rightarrow> extract_signature P i resp)"
  by (simp add: signaturePromise_def split: prod.splits)

lemma member_result_unfold:
  "member_result P vaultId chain options transactions auth_out api_out i =
     (case fst (authenticate_finish (auth_out i) c) of
        Inl e \<Rightarrow> Inl e
      | Inr token \<Rightarrow>
          (case request_settle P (api_out i) of
             Inl e \<Rightarrow> Inl e
           | Inr resp \<Rightarrow> extract_signature P i resp))"
proof -
  let ?c0 = "FordefiClient_new (env_api_key P) (env_api_secret P) None"
  have "fst (authenticate_finish (auth_out i) ?c0) = fst (authenticate_finish (auth_out i) c)"
    by (rule authenticate_finish_fst)
  then show ?thesis
    by (simp add: member_result_def signaturePromise_fst createAndWait_is_request
          request_result authenticate_fst_no_token split: sum.splits)
qed

lemma member_result_response:
  "member_result P vaultId chain options transactions auth_out api_out i =
     (case member_response P vaultId chain options transactions auth_out api_out i of
        Inl e \<Rightarrow> Inl e
      | Inr resp \<Rightarrow> extract_signature P i resp)"
  by (simp add: member_result_def member_response_def signaturePromise_fst)

lemma extract_signature_invalid:
  assumes "signatures resp = None \<or> signatures resp = Some [] \<or>
           (\<exists>first others. signatures resp = Some (first # others) \<and>
              length (bytes_of_base64 P (signature first)) \<noteq> 64)"
  shows "extract_signature P i resp =
     Inl (Error (case signatures resp of
                   None \<Rightarrow> ''No signature returned for transaction '' @ dec i
                 | Some [] \<Rightarrow> ''No signature returned for transaction '' @ dec i
                 | Some (first # others) \<Rightarrow>
                     ''Invalid signature length: '' @
                     dec (length (bytes_of_base64 P (signature first))) @ '', expected 64 bytes''))"
  using assms by (auto simp: extract_signature_def Let_def split: option.splits list.splits)

section \<open>Interleaved runs of a batch\<close>

lemma settle_fields [simp]:
  "members (settle i r b) = (members b)[i := Settled r]"
  "client (settle i r b) = client b"
  "world (settle i r b) = world b"
  by (simp_all add: settle_def)

lemma issue_fields [simp]:
  "members (issue P vaultId chain options transactions i token b) = (members b)[i := AwaitApi]"
  "client (issue P vaultId chain options transactions i token b) = client b"
  "rejection (issue P vaultId chain options transactions i token b) = rejection b"
  by (simp_all add: issue_def split: prod.splits)

lemma length_members_resume [simp]:
  "length (members (resume P vaultId chain options transactions auth_out api_out i b))
     = length (members b)"
  by (simp add: resume_def split: member.splits prod.splits sum.splits)

lemma resume_steps_other:
  "j \<noteq> i \<Longrightarrow>
   members (resume P vaultId chain options transactions auth_out api_out i b) ! j = members b ! j"
  by (simp add: resume_def split: member.splits prod.splits sum.splits)

lemma resume_steps_self:
  "i < length (members b) \<Longrightarrow>
   steps_left (members (resume P vaultId chain options transactions auth_out api_out i b) ! i)
     \<le> steps_left (members b ! i) - 1"
  by (simp add: resume_def split: member.splits prod.splits sum.splits)

lemma fold_resume_length [simp]:
  "length (members (fold (resume P vaultId chain options transactions auth_out api_out) xs b))
     = length (members b)"
  by (induction xs arbitrary: b) simp_all

lemma fold_resume_steps:
  "j < length (members b) \<Longrightarrow>
   steps_left (members (fold (resume P vaultId chain options transactions auth_out api_out) xs b) ! j)
     \<le> steps_left (members b ! j) - count_list xs j"
proof (induction xs arbitrary: b)
  case Nil
  then show ?case by simp
next
  case (Cons x xs)
  let ?b = "resume P vaultId chain options transactions auth_out api_out x b"
  have len: "j < length (members ?b)" using Cons.prems by simp
  have "steps_left (members ?b ! j) \<le> steps_left (members b ! j) - (if x = j then 1 else 0)"
    using Cons.prems resume_steps_self [of j b] resume_steps_other [of j x]
    by (cases "x = j") auto
  with Cons.IH [OF len] show ?case by (auto split: if_splits)
qed

lemma steps_left_0: "steps_left m = 0 \<Longrightarrow> \<exists>r. m = Settled r"
  by (cases m) simp_all

lemma resume_inv:
  assumes inv: "batch_inv auth_out R b"
      and R: "R = member_result P vaultId chain options transactions auth_out api_out"
  shows "batch_inv auth_out R (resume P vaultId chain options transactions auth_out api_out i b)"
proof (cases "i < length (members b)")
  case False
  with inv show ?thesis by (simp add: resume_def)
next
  case True
  note i = True
  from inv have rejN: "rejection b = None \<Longrightarrow>
        \<forall>j<length (members b). \<forall>e. members b ! j \<noteq> Settled (Inl e)"
    and rejS: "\<And>e. rejection b = Some e \<Longrightarrow>
        \<exists>j<length (members b). members b ! j = Settled (Inl e)"
    by (simp_all add: batch_inv_def)
  from inv have mem: "\<And>j. j < length (members b) \<Longrightarrow>
        (case members b ! j of
          AwaitAuth \<Rightarrow> True
        | AwaitToken token \<Rightarrow> False
        | AwaitApi \<Rightarrow> \<forall>c. \<not> isl (fst (authenticate_finish (auth_out j) c))
        | Settled r \<Rightarrow> r = R j)"
    by (simp add: batch_inv_def)
  have settle_ok: "batch_inv auth_out R (settle i (R i) (b\<lparr>client := c'\<rparr>))"
    if "\<forall>r. members b ! i \<noteq> Settled r" for c'
  proof -
    have "\<And>j. j < length (members b) \<Longrightarrow>
        (case (members b)[i := Settled (R i)] ! j of
          AwaitAuth \<Rightarrow> True
        | AwaitToken token \<Rightarrow> False
        | AwaitApi \<Rightarrow> \<forall>c. \<not> isl (fst (authenticate_finish (auth_out j) c))
        | Settled r \<Rightarrow> r = R j)"
      using mem i by (simp add: nth_list_update)
    moreover have "(rejection (settle i (R i) (b\<lparr>client := c'\<rparr>)) = None \<longrightarrow>
          (\<forall>j<length (members b). \<forall>e. (members b)[i := Settled (R i)] ! j \<noteq> Settled (Inl e))) \<and>
        (\<forall>e. rejection (settle i (R i) (b\<lparr>client := c'\<rparr>)) = Some e \<longrightarrow>
          (\<exists>j<length (members b). (members b)[i := Settled (R i)] ! j = Settled (Inl e)))"
    proof (cases "rejection b")
      case None
      with rejN i show ?thesis
        by (cases "R i") (auto simp: settle_def nth_list_update)
    next
      case (Some e0)
      with rejS obtain j where "j < length (members b)" "members b ! j = Settled (Inl e0)" by auto
      moreover from this that have "j \<noteq> i" by auto
      ultimately show ?thesis using Some
        by (auto simp: settle_def nth_list_update intro!: exI [of _ j])
    qed
    ultimately show ?thesis by (simp add: batch_inv_def)
  qed
  have issue_ok: "batch_inv auth_out R (issue P vaultId chain options transactions i token (b\<lparr>client := c'\<rparr>))"
    if "\<forall>r. members b ! i \<noteq> Settled r" "\<forall>c. \<not> isl (fst (authenticate_finish (auth_out i) c))"
    for c' token
  proof -
    have "\<And>j. j < length (members b) \<Longrightarrow>
        (case (members b)[i := AwaitApi] ! j of
          AwaitAuth \<Rightarrow> True
        | AwaitToken token \<Rightarrow> False
        | AwaitApi \<Rightarrow> \<forall>c. \<not> isl (fst (authenticate_finish (auth_out j) c))
        | Settled r \<Rightarrow> r = R j)"
      using mem i that by (auto simp: nth_list_update)
    moreover have "(rejection b = None \<longrightarrow>
          (\<forall>j<length (members b). \<forall>e. (members b)[i := AwaitApi] ! j \<noteq> Settled (Inl e))) \<and>
        (\<forall>e. rejection b = Some e \<longrightarrow>
          (\<exists>j<length (members b). (members b)[i := AwaitApi] ! j = Settled (Inl e)))"
    proof (cases "rejection b")
      case None
      with rejN i show ?thesis by (auto simp: nth_list_update)
    next
      case (Some e0)
      with rejS obtain j where "j < length (members b)" "members b ! j = Settled (Inl e0)" by auto
      moreover from this that have "j \<noteq> i" by auto
      ultimately show ?thesis using Some
        by (auto simp: nth_list_update intro!: exI [of _ j])
    qed
    ultimately show ?thesis by (simp add: batch_inv_def)
  qed
  show ?thesis
  proof (cases "members b ! i")
    case AwaitAuth
    obtain r c' where fin: "authenticate_finish (auth_out i) (client b) = (r, c')"
      by (cases "authenticate_finish (auth_out i) (client b)")
    then have fst_any: "fst (authenticate_finish (auth_out i) c) = r" for c
      by (metis authenticate_finish_fst fst_conv)
    show ?thesis
    proof (cases r)
      case (Inl e)
      with fst_any have "R i = Inl e"
        by (simp add: R member_result_unfold [where c = "client b"])
      with settle_ok [of c'] AwaitAuth fin Inl i show ?thesis
        by (simp add: resume_def)
    next
      case (Inr token)
      with fst_any have "\<forall>c. \<not> isl (fst (authenticate_finish (auth_out i) c))" by simp
      with issue_ok [of token c'] AwaitAuth fin Inr i show ?thesis
        by (simp add: resume_def)
    qed
  next
    case (AwaitToken token)
    with mem [OF i] show ?thesis by simp
  next
    case AwaitApi
    with mem [OF i] have auth: "\<not> isl (fst (authenticate_finish (auth_out i) (client b)))" by simp
    then obtain token where tk: "fst (authenticate_finish (auth_out i) (client b)) = Inr token"
      by (cases "fst (authenticate_finish (auth_out i) (client b))") auto
    have b_eq: "b\<lparr>client := client b\<rparr> = b" by simp
    show ?thesis
    proof (cases "request_settle P (api_out i)")
      case (Inl e)
      with tk have "R i = Inl e"
        by (simp add: R member_result_unfold [where c = "client b"])
      with settle_ok [of "client b"] AwaitApi Inl i b_eq show ?thesis
        by (simp add: resume_def rethrow_id)
    next
      case (Inr resp)
      with tk have "R i = extract_signature P i resp"
        by (simp add: R member_result_unfold [where c = "client b"])
      with settle_ok [of "client b"] AwaitApi Inr i b_eq show ?thesis
        by (simp add: resume_def rethrow_id)
    qed
  next
    case (Settled r)
    with inv i show ?thesis by (simp add: resume_def)
  qed
qed

lemma fold_resume_inv:
  assumes "batch_inv auth_out R b"
      and "R = member_result P vaultId chain options transactions auth_out api_out"
  shows "batch_inv auth_out R
           (fold (resume P vaultId chain options transactions auth_out api_out) xs b)"
  using assms by (induction xs arbitrary: b) (simp_all add: resume_inv)

lemma fold_member_start:
  "\<not> truthy_str (accessToken (client b)) \<Longrightarrow>
   members (fold (\<lambda>tx. member_start P) txs b) = members b @ replicate (length txs) AwaitAuth \<and>
   client (fold (\<lambda>tx. member_start P) txs b) = client b \<and>
   rejection (fold (\<lambda>tx. member_start P) txs b) = rejection b"
proof (induction txs arbitrary: b)
  case Nil
  then show ?case by simp
next
  case (Cons tx txs)
  let ?b = "member_start P b"
  from Cons.prems have s: "members ?b = members b @ [AwaitAuth] \<and> client ?b = client b \<and>
      rejection ?b = rejection b"
    by (simp add: member_start_def authenticate_start_pending)
  with Cons.prems have "\<not> truthy_str (accessToken (client ?b))" by simp
  from Cons.IH [OF this] s show ?case by (simp add: replicate_append_same)
qed

lemma count_list_upt: "count_list [0..<n] j = (if j < n then 1 else 0)"
  by (induction n) auto

lemma settled_values_map:
  "settled_values (map (\<lambda>x. Settled (Inr (f x))) xs) = Some (map f xs)"
  by (induction xs) simp_all

lemma batch_settles:
  fixes P vaultId chain options transactions auth_out api_out schedule w key secret
  defines "R \<equiv> member_result P vaultId chain options transactions auth_out api_out"
  defines "n \<equiv> length transactions"
  defines "b2 \<equiv> fold (resume P vaultId chain options transactions auth_out api_out)
                   (schedule @ [0..<n] @ [0..<n])
                   (fold (\<lambda>tx. member_start P) transactions
                      \<lparr> client = FordefiClient_new key secret None, world = w,
                        members = [], rejection = None \<rparr>)"
  shows "members b2 = map (\<lambda>i. Settled (R i)) [0..<n] \<and> batch_inv auth_out R b2"
proof -
  let ?b0 = "\<lparr> client = FordefiClient_new key secret None, world = w,
               members = [], rejection = None \<rparr>"
  let ?b1 = "fold (\<lambda>tx. member_start P) transactions ?b0"
  have b1: "members ?b1 = replicate n AwaitAuth \<and> rejection ?b1 = None"
    using fold_member_start [of ?b0 P transactions] by (simp add: n_def)
  then have inv1: "batch_inv auth_out R ?b1"
    by (simp add: batch_inv_def)
  have inv2: "batch_inv auth_out R b2"
    unfolding b2_def by (rule fold_resume_inv [OF inv1]) (simp add: R_def)
  have len: "length (members b2) = n"
    using b1 by (simp add: b2_def)
  have "members b2 ! j = Settled (R j)" if j: "j < n" for j
  proof -
    have "steps_left (members b2 ! j) \<le> steps_left (members ?b1 ! j)
            - count_list (schedule @ [0..<n] @ [0..<n]) j"
      unfolding b2_def using j b1 by (intro fold_resume_steps) simp
    with j b1 have "steps_left (members b2 ! j) = 0"
      by (simp add: count_list_upt)
    then obtain r where r: "members b2 ! j = Settled r"
      by (auto dest: steps_left_0)
    with inv2 j len have "r = R j"
      by (auto simp: batch_inv_def split: member.splits)
    with r show ?thesis by simp
  qed
  with len have "members b2 = map (\<lambda>i. Settled (R i)) [0..<n]"
    by (intro nth_equalityI) simp_all
  with inv2 show ?thesis by simp
qed

text \<open>
  Whatever the order in which the answers arrive, the returned promise settles: with the
  signatures in input order when every member resolves, and with the error of one of its
  members as soon as one rejects.
\<close>

lemma signAndSend_all_resolved:
  assumes "\<forall>i<length transactions.
             \<not> isl (member_result P vaultId chain options transactions auth_out api_out i)"
  shows "fst (signAndSendTransactions P vaultId chain options transactions auth_out api_out schedule w)
     = Some (Inr (map (\<lambda>i. projr (member_result P vaultId chain options transactions auth_out api_out i))
                    [0..<length transactions]))"
proof -
  let ?R = "member_result P vaultId chain options transactions auth_out api_out"
  let ?n = "length transactions"
  define b2 where "b2 = fold (resume P vaultId chain options transactions auth_out api_out)
                   (schedule @ [0..<?n] @ [0..<?n])
                   (fold (\<lambda>tx. member_start P) transactions
                      \<lparr> client = FordefiClient_new (env_api_key P) (env_api_secret P) None, world = w,
                        members = [], rejection = None \<rparr>)"
  have res: "fst (signAndSendTransactions P vaultId chain options transactions auth_out api_out
                    schedule w) = promise_all b2"
    by (simp add: signAndSendTransactions_def Let_def b2_def)
  from batch_settles [of P vaultId chain options transactions auth_out api_out schedule _ _ w]
  have m: "members b2 = map (\<lambda>i. Settled (?R i)) [0..<?n]" and inv: "batch_inv auth_out ?R b2"
    unfolding b2_def by blast+
  from assms have "map (\<lambda>i. Settled (?R i)) [0..<?n] = map (\<lambda>i. Settled (Inr (projr (?R i)))) [0..<?n]"
    by simp
  with m have vals: "settled_values (members b2) = Some (map (\<lambda>i. projr (?R i)) [0..<?n])"
    by (simp add: settled_values_map)
  have "rejection b2 = None"
  proof (cases "rejection b2")
    case (Some e)
    with inv obtain i where "i < length (members b2)" "members b2 ! i = Settled (Inl e)"
      by (auto simp: batch_inv_def)
    with m assms show ?thesis by auto
  qed simp
  with vals res show ?thesis
    by (simp add: promise_all_def)
qed

lemma signAndSend_some_rejected:
  assumes "i < length transactions"
      and "isl (member_result P vaultId chain options transactions auth_out api_out i)"
  shows "\<exists>j<length transactions. \<exists>e.
           member_result P vaultId chain options transactions auth_out api_out j = Inl e \<and>
           fst (signAndSendTransactions P vaultId chain options transactions auth_out api_out schedule w)
             = Some (Inl e)"
proof -
  let ?R = "member_result P vaultId chain options transactions auth_out api_out"
  let ?n = "length transactions"
  define b2 where "b2 = fold (resume P vaultId chain options transactions auth_out api_out)
                   (schedule @ [0..<?n] @ [0..<?n])
                   (fold (\<lambda>tx. member_start P) transactions
                      \<lparr> client = FordefiClient_new (env_api_key P) (env_api_secret P) None, world = w,
                        members = [], rejection = None \<rparr>)"
  have res: "fst (signAndSendTransactions P vaultId chain options transactions auth_out api_out
                    schedule w) = promise_all b2"
    by (simp add: signAndSendTransactions_def Let_def b2_def)
  from batch_settles [of P vaultId chain options transactions auth_out api_out schedule _ _ w]
  have m: "members b2 = map (\<lambda>i. Settled (?R i)) [0..<?n]" and inv: "batch_inv auth_out ?R b2"
    unfolding b2_def by blast+
  from assms obtain e0 where "?R i = Inl e0" by (cases "?R i") auto
  with m assms(1) have "members b2 ! i = Settled (Inl e0)" by simp
  moreover from m assms(1) have "i < length (members b2)" by simp
  ultimately obtain e where e: "rejection b2 = Some e"
    using inv by (cases "rejection b2") (auto simp: batch_inv_def)
  with inv obtain j where "j < length (members b2)" "members b2 ! j = Settled (Inl e)"
    by (auto simp: batch_inv_def)
  with m have "j < ?n" "?R j = Inl e" by auto
  with e res show ?thesis
    by (auto simp: promise_all_def)
qed

text \<open>
  C1. If the response of a member has no \<^verbatim>\<open>signatures\<close>, an empty list of them, or a first
  signature that does not decode to 64 bytes, the batch call fails, with the error of a
  member that failed; when no other member fails, that is the member's own error, which names
  the missing signature or the wrong length. The adapter asks for at least one signature and
  looks at the first only: when the response of every member has a first signature of 64
  bytes, the call returns these in input order, however many signatures follow.
\<close>

theorem batch_signature_validation:
  "(i < length transactions \<and>
    member_response P vaultId chain options transactions auth_out api_out i = Inr resp \<and>
    (signatures resp = None \<or> signatures resp = Some [] \<or>
     (\<exists>first others. signatures resp = Some (first # others) \<and>
        length (bytes_of_base64 P (signature first)) \<noteq> 64))
    \<longrightarrow>
    (\<exists>j<length transactions. \<exists>e.
        member_result P vaultId chain options transactions auth_out api_out j = Inl e \<and>
        fst (signAndSendTransactions P vaultId chain options transactions auth_out api_out schedule w)
          = Some (Inl e)) \<and>
    ((\<forall>j<length transactions. j \<noteq> i \<longrightarrow>
         \<not> isl (member_result P vaultId chain options transactions auth_out api_out j)) \<longrightarrow>
     fst (signAndSendTransactions P vaultId chain options transactions auth_out api_out schedule w)
       = Some (Inl (Error (case signatures resp of
                   None \<Rightarrow> ''No signature returned for transaction '' @ dec i
                 | Some [] \<Rightarrow> ''No signature returned for transaction '' @ dec i
                 | Some (first # others) \<Rightarrow>
                     ''Invalid signature length: '' @
                     dec (length (bytes_of_base64 P (signature first))) @ '', expected 64 bytes'')))))
   \<and>
   ((\<forall>k<length transactions. \<exists>r first others.
        member_response P vaultId chain options transactions auth_out api_out k = Inr r \<and>
        signatures r = Some (first # others) \<and>
        length (bytes_of_base64 P (signature first)) = 64 \<and>
        sigs ! k = bytes_of_base64 P (signature first)) \<and> length sigs = length transactions
    \<longrightarrow>
    fst (signAndSendTransactions P vaultId chain options transactions auth_out api_out schedule w)
      = Some (Inr sigs))"
proof (intro conjI impI)
  let ?R = "member_result P vaultId chain options transactions auth_out api_out"
  let ?res = "fst (signAndSendTransactions P vaultId chain options transactions auth_out api_out
                     schedule w)"
  assume a: "i < length transactions \<and>
    member_response P vaultId chain options transactions auth_out api_out i = Inr resp \<and>
    (signatures resp = None \<or> signatures resp = Some [] \<or>
     (\<exists>first others. signatures resp = Some (first # others) \<and>
        length (bytes_of_base64 P (signature first)) \<noteq> 64))"
  then have Ri: "?R i = Inl (Error (case signatures resp of
                   None \<Rightarrow> ''No signature returned for transaction '' @ dec i
                 | Some [] \<Rightarrow> ''No signature returned for transaction '' @ dec i
                 | Some (first # others) \<Rightarrow>
                     ''Invalid signature length: '' @
                     dec (length (bytes_of_base64 P (signature first))) @ '', expected 64 bytes''))"
    by (simp add: member_result_response extract_signature_invalid)
  then have "isl (?R i)" by simp
  with a signAndSend_some_rejected [of i transactions P vaultId chain options auth_out api_out schedule w]
  show ex: "\<exists>j<length transactions. \<exists>e. ?R j = Inl e \<and> ?res = Some (Inl e)"
    by blast
  assume only: "\<forall>j<length transactions. j \<noteq> i \<longrightarrow> \<not> isl (?R j)"
  from ex obtain j e where j: "j < length transactions" "?R j = Inl e" "?res = Some (Inl e)"
    by blast
  with only have "j = i" by (cases "j = i") auto
  with j Ri show "?res = Some (Inl (Error (case signatures resp of
                   None \<Rightarrow> ''No signature returned for transaction '' @ dec i
                 | Some [] \<Rightarrow> ''No signature returned for transaction '' @ dec i
                 | Some (first # others) \<Rightarrow>
                     ''Invalid signature length: '' @
                     dec (length (bytes_of_base64 P (signature first))) @ '', expected 64 bytes'')))"
    by simp
next
  let ?R = "member_result P vaultId chain options transactions auth_out api_out"
  assume b: "(\<forall>k<length transactions. \<exists>r first others.
        member_response P vaultId chain options transactions auth_out api_out k = Inr r \<and>
        signatures r = Some (first # others) \<and>
        length (bytes_of_base64 P (signature first)) = 64 \<and>
        sigs ! k = bytes_of_base64 P (signature first)) \<and> length sigs = length transactions"
  have R: "?R k = Inr (sigs ! k)" if "k < length transactions" for k
  proof -
    from b that obtain r first others where
      "member_response P vaultId chain options transactions auth_out api_out k = Inr r"
      "signatures r = Some (first # others)"
      "length (bytes_of_base64 P (signature first)) = 64"
      "sigs ! k = bytes_of_base64 P (signature first)"
      by blast
    then show ?thesis
      by (simp add: member_result_response extract_signature_def)
  qed
  then have "\<forall>k<length transactions. \<not> isl (?R k)" by simp
  from signAndSend_all_resolved [OF this, of schedule w]
  have "fst (signAndSendTransactions P vaultId chain options transactions auth_out api_out schedule w)
          = Some (Inr (map (\<lambda>k. projr (?R k)) [0..<length transactions]))" .
  moreover have "map (\<lambda>k. projr (?R k)) [0..<length transactions] = sigs"
    using b R by (intro nth_equalityI) simp_all
  ultimately show "fst (signAndSendTransactions P vaultId chain options transactions auth_out
                          api_out schedule w) = Some (Inr sigs)"
    by simp
qed

theorem batch_signature_validation_witness:
  "((1::nat) < length [tx0, tx0] \<and>
    member_response jobs_node ''vault'' ''solana_mainnet'' no_options [tx0, tx0] (\<lambda>i. token_ok)
       unsigned_second 1 = Inr (sample_job Completed None) \<and>
    signatures (sample_job Completed None) = None \<and>
    fst (signAndSendTransactions jobs_node ''vault'' ''solana_mainnet'' no_options [tx0, tx0]
           (\<lambda>i. token_ok) unsigned_second [1, 0, 0] world0)
      = Some (Inl (Error ''No signature returned for transaction 1''))) \<and>
   (member_response jobs_node ''vault'' ''solana_mainnet'' no_options [tx0, tx0] (\<lambda>i. token_ok)
       signed_twice 0 = Inr (sample_job Completed (Some [sample_entry sig64, sample_entry sig64])) \<and>
    member_response jobs_node ''vault'' ''solana_mainnet'' no_options [tx0, tx0] (\<lambda>i. token_ok)
       signed_twice 1 = Inr (sample_job Completed (Some [sample_entry sig64, sample_entry sig64])) \<and>
    length (bytes_of_base64 jobs_node (signature (sample_entry sig64))) = 64 \<and>
    fst (signAndSendTransactions jobs_node ''vault'' ''solana_mainnet'' no_options [tx0, tx0]
           (\<lambda>i. token_ok) signed_twice [1, 0, 0] world0)
      = Some (Inr [replicate 64 0, replicate 64 0]))"
proof -
  let ?two = "sample_job Completed (Some [sample_entry sig64, sample_entry sig64])"
  have a1: "(1::nat) < length [tx0, tx0]" by simp
  have a2: "member_response jobs_node ''vault'' ''solana_mainnet'' no_options [tx0, tx0]
              (\<lambda>i. token_ok) unsigned_second 1 = Inr (sample_job Completed None)"
    by code_simp
  have a3: "signatures (sample_job Completed None) = None"
    by (simp add: sample_job_def)
  have a4: "\<not> isl (member_result jobs_node ''vault'' ''solana_mainnet'' no_options [tx0, tx0]
                     (\<lambda>i. token_ok) unsigned_second 0)"
    by code_simp
  have a5: "\<forall>j<length [tx0, tx0]. j \<noteq> 1 \<longrightarrow>
              \<not> isl (member_result jobs_node ''vault'' ''solana_mainnet'' no_options [tx0, tx0]
                       (\<lambda>i. token_ok) unsigned_second j)"
    using a4 by (auto simp: less_Suc_eq)
  have d: "dec 1 = ''1''" by code_simp
  have b1: "member_response jobs_node ''vault'' ''solana_mainnet'' no_options [tx0, tx0]
              (\<lambda>i. token_ok) signed_twice 0 = Inr ?two"
    by code_simp
  have b2: "member_response jobs_node ''vault'' ''solana_mainnet'' no_options [tx0, tx0]
              (\<lambda>i. token_ok) signed_twice 1 = Inr ?two"
    by code_simp
  have b3: "signatures ?two = Some (sample_entry sig64 # [sample_entry sig64])"
    by (simp add: sample_job_def)
  have b4: "length (bytes_of_base64 jobs_node (signature (sample_entry sig64))) = 64"
    by code_simp
  have b5: "bytes_of_base64 jobs_node (signature (sample_entry sig64)) = replicate 64 0"
    by code_simp
  have b6: "\<forall>k<length [tx0, tx0]. \<exists>r first others.
        member_response jobs_node ''vault'' ''solana_mainnet'' no_options [tx0, tx0] (\<lambda>i. token_ok)
          signed_twice k = Inr r \<and>
        signatures r = Some (first # others) \<and>
        length (bytes_of_base64 jobs_node (signature first)) = 64 \<and>
        [replicate 64 0, replicate 64 0] ! k = bytes_of_base64 jobs_node (signature first)"
    using b1 b2 b3 b4 b5 by (auto simp: less_Suc_eq)
  from batch_signature_validation
         [of 1 "[tx0, tx0]" jobs_node "''vault''" "''solana_mainnet''" no_options "\<lambda>i. token_ok"
             unsigned_second "sample_job Completed None" "[1, 0, 0]" world0]
       a1 a2 a3 a5 d
  have ra: "fst (signAndSendTransactions jobs_node ''vault'' ''solana_mainnet'' no_options [tx0, tx0]
           (\<lambda>i. token_ok) unsigned_second [1, 0, 0] world0)
      = Some (Inl (Error ''No signature returned for transaction 1''))"
    by simp
  from batch_signature_validation
         [of _ "[tx0, tx0]" jobs_node "''vault''" "''solana_mainnet''" no_options "\<lambda>i. token_ok"
             signed_twice _ "[1, 0, 0]" world0 "[replicate 64 0, replicate 64 0]"]
       b6
  have rb: "fst (signAndSendTransactions jobs_node ''vault'' ''solana_mainnet'' no_options [tx0, tx0]
           (\<lambda>i. token_ok) signed_twice [1, 0, 0] world0)
      = Some (Inr [replicate 64 0, replicate 64 0])"
    by simp
  from a1 a2 a3 ra b1 b2 b4 rb show ?thesis by blast
qed

text \<open>
  C1 as stated, with a count of signatures other than one as a failure, does not hold: a
  response with two signatures is accepted.
\<close>

theorem two_signatures_accepted:
  "length (the (signatures (sample_job Completed (Some [sample_entry sig64, sample_entry sig64])))) = 2 \<and>
   fst (signAndSendTransactions jobs_node ''vault'' ''solana_mainnet'' no_options [tx0]
          (\<lambda>i. token_ok) signed_twice [] world0)
     = Some (Inr [replicate 64 0])"
  by code_simp

section \<open>Errors on their way to the caller\<close>

text \<open>
  C7. No layer recovers from an error. A call to \<^verbatim>\<open>/auth\<close> that is rejected, with or without
  a response, or answered without a token makes \<^verbatim>\<open>authenticate\<close> throw one and the same
  error; \<^verbatim>\<open>request\<close> passes that error on, throws when its own call is rejected or
  answered with a status outside 200 to 299, and turns a call of its own that got no response
  into an error that names the network and holds the transport message;
  \<^verbatim>\<open>createAndWaitTransaction\<close> returns or throws what \<^verbatim>\<open>request\<close> does; a member of a
  batch passes the error of \<^verbatim>\<open>createAndWaitTransaction\<close> on; a batch call with a failed
  member fails, and the error it throws is the error of one of its members.
\<close>

theorem errors_passed_on:
  "(\<not> truthy_str (accessToken c) \<longrightarrow>
      fst (authenticate P (Rejected auth_err) c w)
        = Inl (Error ''Failed to authenticate with Fordefi'')) \<and>
   (\<not> truthy_str (accessToken c) \<and> \<not> truthy_str (data_accessToken (data auth_resp)) \<longrightarrow>
      fst (authenticate P (Resolved auth_resp) c w)
        = Inl (Error ''Failed to authenticate with Fordefi'')) \<and>
   (fst (authenticate P auth_out c w) = Inl e \<longrightarrow>
      e = Error ''Failed to authenticate with Fordefi'' \<and>
      fst (request P verb path body auth_out api_out c w) = Inl e) \<and>
   (fst (authenticate P auth_out c w) = Inr token \<and> response err = None \<longrightarrow>
      fst (request P verb path body auth_out (Rejected err) c w)
        = Inl (Error (''Network error occurred: '' @ message err))) \<and>
   isl (fst (request P verb path body auth_out (Rejected err) c w)) \<and>
   (status resp < 200 \<or> 300 \<le> status resp \<longrightarrow>
      isl (fst (request P verb path body auth_out (Resolved resp) c w))) \<and>
   createAndWaitTransaction P vaultId transaction chain options auth_out api_out c w
     = request P POST ''/v1/transactions/create-and-wait''
         (createAndWait_body P vaultId transaction chain options) auth_out api_out c w \<and>
   (member_response P vaultId chain options transactions auth_outs api_outs i = Inl e' \<longrightarrow>
      member_result P vaultId chain options transactions auth_outs api_outs i = Inl e') \<and>
   (i < length transactions \<and>
    member_result P vaultId chain options transactions auth_outs api_outs i = Inl e' \<longrightarrow>
      (\<exists>e''. fst (signAndSendTransactions P vaultId chain options transactions auth_outs api_outs
                     schedule w) = Some (Inl e''))) \<and>
   (fst (signAndSendTransactions P vaultId chain options transactions auth_outs api_outs schedule w)
      = Some (Inl e'') \<longrightarrow>
      (\<exists>j<length transactions.
          member_result P vaultId chain options transactions auth_outs api_outs j = Inl e''))"
proof (intro conjI impI)
  assume "\<not> truthy_str (accessToken c)"
  then show "fst (authenticate P (Rejected auth_err) c w)
        = Inl (Error ''Failed to authenticate with Fordefi'')"
    by (simp add: authenticate_fst_no_token authenticate_finish_def authenticate_try_def)
next
  assume "\<not> truthy_str (accessToken c) \<and> \<not> truthy_str (data_accessToken (data auth_resp))"
  then show "fst (authenticate P (Resolved auth_resp) c w)
        = Inl (Error ''Failed to authenticate with Fordefi'')"
    by (simp add: authenticate_fst_no_token authenticate_finish_def authenticate_try_def Let_def)
next
  assume a: "fst (authenticate P auth_out c w) = Inl e"
  then show "e = Error ''Failed to authenticate with Fordefi''"
    by (rule authenticate_error)
  from a show "fst (request P verb path body auth_out api_out c w) = Inl e"
    by (simp add: request_result)
next
  assume "fst (authenticate P auth_out c w) = Inr token \<and> response err = None"
  then show "fst (request P verb path body auth_out (Rejected err) c w)
        = Inl (Error (''Network error occurred: '' @ message err))"
    by (simp add: request_result request_settle_def request_try_def request_catch_def)
next
  show "isl (fst (request P verb path body auth_out (Rejected err) c w))"
    by (simp add: request_result request_settle_def request_try_def split: sum.splits)
next
  assume "status resp < 200 \<or> 300 \<le> status resp"
  then show "isl (fst (request P verb path body auth_out (Resolved resp) c w))"
    by (simp add: request_result request_settle_def request_try_def split: sum.splits)
next
  show "createAndWaitTransaction P vaultId transaction chain options auth_out api_out c w
     = request P POST ''/v1/transactions/create-and-wait''
         (createAndWait_body P vaultId transaction chain options) auth_out api_out c w"
    by (rule createAndWait_is_request)
next
  assume "member_response P vaultId chain options transactions auth_outs api_outs i = Inl e'"
  then show "member_result P vaultId chain options transactions auth_outs api_outs i = Inl e'"
    by (simp add: member_result_response)
next
  assume "i < length transactions \<and>
    member_result P vaultId chain options transactions auth_outs api_outs i = Inl e'"
  with signAndSend_some_rejected
         [of i transactions P vaultId chain options auth_outs api_outs schedule w]
  show "\<exists>e''. fst (signAndSendTransactions P vaultId chain options transactions auth_outs api_outs
                     schedule w) = Some (Inl e'')"
    by auto
next
  let ?R = "member_result P vaultId chain options transactions auth_outs api_outs"
  assume r: "fst (signAndSendTransactions P vaultId chain options transactions auth_outs api_outs
                    schedule w) = Some (Inl e'')"
  show "\<exists>j<length transactions. ?R j = Inl e''"
  proof (cases "\<forall>k<length transactions. \<not> isl (?R k)")
    case True
    from signAndSend_all_resolved [OF this, of schedule w] r show ?thesis by simp
  next
    case False
    then obtain k where "k < length transactions" "isl (?R k)" by blast
    from signAndSend_some_rejected [OF this, of schedule w] r show ?thesis by auto
  qed
qed

theorem errors_passed_on_witness:
  "fst (authenticate jobs_node (Rejected unauthorized) client0 world0)
     = Inl (Error ''Failed to authenticate with Fordefi'') \<and>
   fst (authenticate jobs_node (Resolved \<lparr> status = 200, data = \<lparr> data_accessToken = None \<rparr> \<rparr>)
          client0 world0)
     = Inl (Error ''Failed to authenticate with Fordefi'') \<and>
   fst (authenticate jobs_node refused client0 world0)
     = Inl (Error ''Failed to authenticate with Fordefi'') \<and>
   fst (request jobs_node GET ''/v1/wallets/solana'' JUndefined refused
          (ok (sample_job Completed None)) client0 world0)
     = Inl (Error ''Failed to authenticate with Fordefi'') \<and>
   fst (authenticate jobs_node token_ok client0 world0) = Inr ''tok'' \<and>
   fst (request jobs_node GET ''/v1/wallets/solana'' JUndefined token_ok (Rejected job_lost)
          client0 world0)
     = Inl (Error ''Network error occurred: getaddrinfo ENOTFOUND api.fordefi.com'') \<and>
   isl (fst (request jobs_node GET ''/v1/wallets/solana'' JUndefined token_ok
          (Resolved \<lparr> status = 500, data = sample_job Failed None \<rparr>) client0 world0)) \<and>
   member_response jobs_node ''vault'' ''solana_mainnet'' no_options [tx0] (\<lambda>i. refused)
      (\<lambda>i. ok (sample_job Completed None)) 0 = Inl (Error ''Failed to authenticate with Fordefi'') \<and>
   (0::nat) < length [tx0] \<and>
   member_result jobs_node ''vault'' ''solana_mainnet'' no_options [tx0] (\<lambda>i. refused)
      (\<lambda>i. ok (sample_job Completed None)) 0 = Inl (Error ''Failed to authenticate with Fordefi'') \<and>
   fst (signAndSendTransactions jobs_node ''vault'' ''solana_mainnet'' no_options [tx0]
          (\<lambda>i. refused) (\<lambda>i. ok (sample_job Completed None)) [] world0)
     = Some (Inl (Error ''Failed to authenticate with Fordefi''))"
proof -
  let ?e = "Error ''Failed to authenticate with Fordefi''"
  let ?api = "\<lambda>i::nat. ok (sample_job Completed None)"
  let ?none = "\<lparr> status = 200, data = \<lparr> data_accessToken = None \<rparr> \<rparr>"
  let ?bad = "\<lparr> status = 500, data = sample_job Failed None \<rparr>"
  have n: "\<not> truthy_str (accessToken client0)"
    by (simp add: client0_def)
  have nn: "\<not> truthy_str (data_accessToken (data ?none))"
    by (simp add: truthy_str_def)
  have h1: "fst (authenticate jobs_node refused client0 world0) = Inl ?e" by code_simp
  have h2: "member_response jobs_node ''vault'' ''solana_mainnet'' no_options [tx0] (\<lambda>i. refused)
              ?api 0 = Inl ?e" by code_simp
  have h3: "(0::nat) < length [tx0]" by simp
  have h4: "fst (signAndSendTransactions jobs_node ''vault'' ''solana_mainnet'' no_options [tx0]
                   (\<lambda>i. refused) ?api [] world0) = Some (Inl ?e)" by code_simp
  have h5: "fst (authenticate jobs_node token_ok client0 world0) = Inr ''tok''" by code_simp
  have h6: "response job_lost = None" by (simp add: job_lost_def)
  note t = errors_passed_on
             [where P = jobs_node and c = client0 and w = world0 and auth_err = unauthorized
                and auth_resp = ?none and auth_out = refused and e = ?e and verb = GET
                and path = "''/v1/wallets/solana''" and body = JUndefined
                and api_out = "ok (sample_job Completed None)" and token = "''tok''"
                and err = job_lost and resp = ?bad and vaultId = "''vault''"
                and transaction = "[1, 2, 3]" and chain = "''solana_mainnet''"
                and options = no_options and transactions = "[tx0]" and auth_outs = "\<lambda>i. refused"
                and api_outs = ?api and i = 0 and e' = ?e and schedule = "[]" and e'' = ?e]
  note u = errors_passed_on
             [where P = jobs_node and c = client0 and w = world0 and auth_err = unauthorized
                and auth_resp = ?none and auth_out = token_ok and e = ?e and verb = GET
                and path = "''/v1/wallets/solana''" and body = JUndefined
                and api_out = "ok (sample_job Completed None)" and token = "''tok''"
                and err = job_lost and resp = ?bad and vaultId = "''vault''"
                and transaction = "[1, 2, 3]" and chain = "''solana_mainnet''"
                and options = no_options and transactions = "[tx0]" and auth_outs = "\<lambda>i. refused"
                and api_outs = ?api and i = 0 and e' = ?e and schedule = "[]" and e'' = ?e]
  from t n have r0: "fst (authenticate jobs_node (Rejected unauthorized) client0 world0) = Inl ?e"
    by blast
  from t n nn have r00: "fst (authenticate jobs_node (Resolved ?none) client0 world0) = Inl ?e"
    by blast
  from t h1 have r1: "fst (request jobs_node GET ''/v1/wallets/solana'' JUndefined refused
          (ok (sample_job Completed None)) client0 world0) = Inl ?e" by blast
  from t h2 have r2: "member_result jobs_node ''vault'' ''solana_mainnet'' no_options [tx0]
      (\<lambda>i. refused) ?api 0 = Inl ?e" by blast
  from u h5 h6 have r3: "fst (request jobs_node GET ''/v1/wallets/solana'' JUndefined token_ok
          (Rejected job_lost) client0 world0)
     = Inl (Error ''Network error occurred: getaddrinfo ENOTFOUND api.fordefi.com'')"
    by (simp add: job_lost_def)
  from u have r4: "isl (fst (request jobs_node GET ''/v1/wallets/solana'' JUndefined token_ok
          (Resolved ?bad) client0 world0))" by simp
  from r0 r00 h1 r1 h5 r3 r4 h2 h3 r2 h4 show ?thesis by blast
qed

text \<open>
  C7 as stated, with every failure reaching the caller in its own kind, does not hold: a
  refused connection, a status 401 and an answer without a token in the call to \<^verbatim>\<open>/auth\<close>
  all reach the caller of \<^verbatim>\<open>createAndWaitTransaction\<close> as the same error.
\<close>

theorem auth_failures_rewrapped_counterexample:
  "fst (createAndWaitTransaction jobs_node ''vault'' [1, 2, 3] ''solana_mainnet'' no_options
          (Rejected \<lparr> message = ''connect ECONNREFUSED 127.0.0.1:443'', response = None \<rparr>)
          (ok (sample_job Completed None)) client0 world0)
     = Inl (Error ''Failed to authenticate with Fordefi'') \<and>
   fst (createAndWaitTransaction jobs_node ''vault'' [1, 2, 3] ''solana_mainnet'' no_options
          (Rejected \<lparr> message = ''Request failed with status code 401'',
                      response = Some \<lparr> status = 401, data = \<lparr> data_accessToken = None \<rparr> \<rparr> \<rparr>)
          (ok (sample_job Completed None)) client0 world0)
     = Inl (Error ''Failed to authenticate with Fordefi'') \<and>
   fst (createAndWaitTransaction jobs_node ''vault'' [1, 2, 3] ''solana_mainnet'' no_options
          (ok \<lparr> data_accessToken = None \<rparr>)
          (ok (sample_job Completed None)) client0 world0)
     = Inl (Error ''Failed to authenticate with Fordefi'')"
  by code_simp

section \<open>Concurrent authentication\<close>

lemma auth_request_url:
  "req_url (fst (auth_request P c w)) = baseURL c @ ''/auth''"
  by (simp add: auth_request_def createSignature_def Let_def split: prod.splits)

lemma member_start_calls:
  "\<not> truthy_str (accessToken (client b)) \<Longrightarrow>
   auth_calls (baseURL (client b)) (world (member_start P b))
     = Suc (auth_calls (baseURL (client b)) (world b)) \<and>
   client (member_start P b) = client b"
  by (simp add: member_start_def authenticate_start_pending auth_calls_def auth_request_url
        auth_request_world)

lemma fold_member_start_calls:
  "\<not> truthy_str (accessToken (client b)) \<Longrightarrow>
   auth_calls (baseURL (client b)) (world (fold (\<lambda>tx. member_start P) txs b))
     = auth_calls (baseURL (client b)) (world b) + length txs \<and>
   client (fold (\<lambda>tx. member_start P) txs b) = client b"
proof (induction txs arbitrary: b)
  case Nil
  then show ?case by simp
next
  case (Cons tx txs)
  from member_start_calls [OF Cons.prems, of P] Cons.prems
  have "\<not> truthy_str (accessToken (client (member_start P b)))" by simp
  from Cons.IH [OF this] member_start_calls [OF Cons.prems, of P]
  show ?case by simp
qed

lemma authenticate_finish_baseURL:
  "baseURL (snd (authenticate_finish out c)) = baseURL c"
  by (simp add: authenticate_finish_def authenticate_try_def Let_def
        split: outcome.splits prod.splits sum.splits)

lemma api_request_url:
  "req_url (fst (api_request P c method path body token w)) = baseURL c @ path"
  by (simp add: api_request_def createSignature_def Let_def split: Method.splits prod.splits)

lemma api_request_sent:
  "sent (snd (api_request P c method path body token w)) = sent w"
  by (simp add: api_request_def createSignature_def Let_def split: Method.splits prod.splits)

lemma issue_calls:
  "auth_calls (baseURL (client b)) (world (issue P vaultId chain options transactions i token b))
     = auth_calls (baseURL (client b)) (world b)"
proof -
  obtain rq w' where a: "api_request P (client b) POST ''/v1/transactions/create-and-wait''
          (member_body P vaultId chain options transactions i) token (world b) = (rq, w')"
    by (cases "api_request P (client b) POST ''/v1/transactions/create-and-wait''
          (member_body P vaultId chain options transactions i) token (world b)")
  from api_request_url [of P "client b" POST "''/v1/transactions/create-and-wait''"
          "member_body P vaultId chain options transactions i" token "world b"] a
  have u: "req_url rq = baseURL (client b) @ ''/v1/transactions/create-and-wait''" by simp
  from api_request_sent [of P "client b" POST "''/v1/transactions/create-and-wait''"
          "member_body P vaultId chain options transactions i" token "world b"] a
  have "sent w' = sent (world b)" by simp
  with u a show ?thesis
    by (simp add: issue_def auth_calls_def)
qed

lemma resume_calls:
  "auth_calls (baseURL (client b))
      (world (resume P vaultId chain options transactions auth_out api_out i b))
     = auth_calls (baseURL (client b)) (world b) \<and>
   baseURL (client (resume P vaultId chain options transactions auth_out api_out i b))
     = baseURL (client b)"
proof -
  have "auth_calls (baseURL (client b)) (world (issue P vaultId chain options transactions i token
           (b\<lparr>client := snd (authenticate_finish (auth_out i) (client b))\<rparr>)))
        = auth_calls (baseURL (client b)) (world b)" for token
    using issue_calls [of "b\<lparr>client := snd (authenticate_finish (auth_out i) (client b))\<rparr>"
             P vaultId chain options transactions i token]
    by (simp add: authenticate_finish_baseURL)
  then show ?thesis
    using authenticate_finish_baseURL [of "auth_out i" "client b"]
    by (auto simp: resume_def issue_calls split: member.splits prod.splits sum.splits)
qed

lemma fold_resume_calls:
  "auth_calls (baseURL (client b))
      (world (fold (resume P vaultId chain options transactions auth_out api_out) xs b))
     = auth_calls (baseURL (client b)) (world b) \<and>
   baseURL (client (fold (resume P vaultId chain options transactions auth_out api_out) xs b))
     = baseURL (client b)"
proof (induction xs arbitrary: b)
  case Nil
  then show ?case by simp
next
  case (Cons x xs)
  from Cons.IH [of "resume P vaultId chain options transactions auth_out api_out x b"]
       resume_calls [of b P vaultId chain options transactions auth_out api_out x]
  show ?case by simp
qed

text \<open>
  C9. The members of a batch share one new client and all reach \<^verbatim>\<open>authenticate\<close> before any
  answer has arrived, so each of them finds no token and issues its own request to
  \<^verbatim>\<open>/auth\<close>: a batch of \<open>n\<close> transactions issues \<open>n\<close> such requests, whatever the order
  in which the answers arrive.
\<close>

theorem batch_auth_calls:
  "auth_calls ''https://api.fordefi.com''
     (snd (signAndSendTransactions P vaultId chain options transactions auth_out api_out schedule w))
   = auth_calls ''https://api.fordefi.com'' w + length transactions"
proof -
  let ?c0 = "FordefiClient_new (env_api_key P) (env_api_secret P) None"
  let ?n = "length transactions"
  define b1 where "b1 = fold (\<lambda>tx. member_start P) transactions
                          \<lparr> client = ?c0, world = w, members = [], rejection = None \<rparr>"
  define b2 where "b2 = fold (resume P vaultId chain options transactions auth_out api_out)
                          (schedule @ [0..<?n] @ [0..<?n]) b1"
  have res: "snd (signAndSendTransactions P vaultId chain options transactions auth_out api_out
                    schedule w) = world b2"
    by (simp add: signAndSendTransactions_def Let_def b2_def b1_def)
  have base: "baseURL ?c0 = ''https://api.fordefi.com''"
    by (simp add: FordefiClient_new_def truthy_str_def)
  have s: "auth_calls (baseURL ?c0) (world b1) = auth_calls (baseURL ?c0) w + ?n
           \<and> client b1 = ?c0"
    unfolding b1_def
    using fold_member_start_calls
            [of "\<lparr> client = ?c0, world = w, members = [], rejection = None \<rparr>" P transactions]
    by simp
  have "auth_calls (baseURL (client b1)) (world b2) = auth_calls (baseURL (client b1)) (world b1)"
    unfolding b2_def
    using fold_resume_calls [of b1 P vaultId chain options transactions auth_out api_out]
    by blast
  with s base res show ?thesis by simp
qed

text \<open>
  C9 as stated, with one request to \<^verbatim>\<open>/auth\<close> shared by all concurrent callers, does not
  hold: a batch of two issues two.
\<close>

theorem two_members_two_auth_calls:
  "auth_calls ''https://api.fordefi.com''
     (snd (signAndSendTransactions jobs_node ''vault'' ''solana_mainnet'' no_options [tx0, tx0]
             (\<lambda>i. token_ok) (\<lambda>i. ok (sample_job Completed (Some [sample_entry sig64])))
             [] world0)) = 2"
  by code_simp

section \<open>What a batch submits\<close>

lemma authenticate_finish_isl:
  "isl (fst (authenticate_finish out c)) \<longleftrightarrow> \<not> answers_token out"
  by (simp add: authenticate_finish_def authenticate_try_def answers_token_def Let_def
        split: outcome.splits)

lemma mset_filter_upt_gain:
  assumes "k < n" "\<not> Q k" "Q' k" "\<forall>j. j \<noteq> k \<longrightarrow> Q' j = Q j"
  shows "mset (map f (filter Q' [0..<n])) = add_mset (f k) (mset (map f (filter Q [0..<n])))"
  using assms
proof (induction n)
  case 0
  then show ?case by simp
next
  case (Suc n)
  show ?case
  proof (cases "k = n")
    case True
    have "filter Q' [0..<n] = filter Q [0..<n]"
      using Suc.prems(4) True by (intro filter_cong) auto
    with True Suc.prems show ?thesis by simp
  next
    case False
    with Suc.prems have "k < n" by simp
    from Suc.IH [OF this Suc.prems(2,3,4)] False Suc.prems(4) show ?thesis
      by (auto simp: )
  qed
qed

lemma filter_upt_same:
  "\<forall>j<n. Q' j = Q j \<Longrightarrow> filter Q' [0..<n] = filter Q [0..<n]"
  by (intro filter_cong) auto

lemma member_start_submitted:
  "\<not> truthy_str (accessToken (client b)) \<Longrightarrow>
   submitted (baseURL (client b)) (world (member_start P b)) = submitted (baseURL (client b)) (world b)"
  by (simp add: member_start_def authenticate_start_pending submitted_def auth_request_url
        auth_request_world)

lemma fold_member_start_submitted:
  "\<not> truthy_str (accessToken (client b)) \<Longrightarrow>
   submitted (baseURL (client b)) (world (fold (\<lambda>tx. member_start P) txs b))
     = submitted (baseURL (client b)) (world b)"
proof (induction txs arbitrary: b)
  case Nil
  then show ?case by simp
next
  case (Cons tx txs)
  from member_start_calls [OF Cons.prems, of P] Cons.prems
  have c: "client (member_start P b) = client b" by simp
  with Cons.prems have "\<not> truthy_str (accessToken (client (member_start P b)))" by simp
  from Cons.IH [OF this] c member_start_submitted [OF Cons.prems, of P]
  show ?case by simp
qed

lemma issue_submitted:
  "submitted (baseURL (client b)) (world (issue P vaultId chain options transactions i token b))
     = submitted (baseURL (client b)) (world b)
       @ [Some (stringify_body P (member_body P vaultId chain options transactions i))]"
  by (simp add: issue_def submitted_def api_request_def createSignature_def Let_def
        member_body_def createAndWait_body_def)

lemma resume_submitted:
  fixes P vaultId chain options transactions auth_out api_out
  defines "step \<equiv> resume P vaultId chain options transactions auth_out api_out"
  defines "f \<equiv> \<lambda>i. Some (stringify_body P (member_body P vaultId chain options transactions i))"
  assumes inv: "batch_inv auth_out R b"
      and J: "mset (submitted base (world b)) =
                M + mset (map f (filter (\<lambda>i. members b ! i \<noteq> AwaitAuth \<and> answers_token (auth_out i))
                                   [0..<length (members b)]))"
      and base: "baseURL (client b) = base"
  shows "mset (submitted base (world (step k b))) =
           M + mset (map f (filter (\<lambda>i. members (step k b) ! i \<noteq> AwaitAuth \<and> answers_token (auth_out i))
                              [0..<length (members (step k b))]))"
proof (cases "k < length (members b)")
  case False
  with J show ?thesis by (simp add: step_def resume_def)
next
  case True
  note k = True
  let ?n = "length (members b)"
  let ?I = "\<lambda>i. members b ! i \<noteq> AwaitAuth \<and> answers_token (auth_out i)"
  have len: "length (members (step k b)) = ?n" by (simp add: step_def)
  have other: "members (step k b) ! j = members b ! j" if "j \<noteq> k" for j
    using that by (simp add: step_def resume_steps_other)
  show ?thesis
  proof (cases "members b ! k")
    case AwaitAuth
    obtain r c' where fin: "authenticate_finish (auth_out k) (client b) = (r, c')"
      by (cases "authenticate_finish (auth_out k) (client b)")
    have c': "baseURL c' = base"
      using authenticate_finish_baseURL [of "auth_out k" "client b"] fin base by simp
    show ?thesis
    proof (cases r)
      case (Inl e)
      with fin have no: "\<not> answers_token (auth_out k)"
        using authenticate_finish_isl [of "auth_out k" "client b"] by simp
      from AwaitAuth fin Inl k have w: "world (step k b) = world b"
        by (simp add: step_def resume_def)
      have "filter (\<lambda>i. members (step k b) ! i \<noteq> AwaitAuth \<and> answers_token (auth_out i)) [0..<?n]
              = filter ?I [0..<?n]"
        using other no by (intro filter_upt_same) (metis)
      with J w len show ?thesis by simp
    next
      case (Inr token)
      with fin have yes: "answers_token (auth_out k)"
        using authenticate_finish_isl [of "auth_out k" "client b"] by auto
      from AwaitAuth fin Inr k
      have st: "step k b = issue P vaultId chain options transactions k token (b\<lparr>client := c'\<rparr>)"
        by (simp add: step_def resume_def)
      have w: "submitted base (world (step k b)) = submitted base (world b) @ [f k]"
        using issue_submitted [of "b\<lparr>client := c'\<rparr>" P vaultId chain options transactions k token] c'
        by (simp add: st f_def)
      have mk: "members (step k b) ! k = AwaitApi"
        using k by (simp add: st)
      have "mset (map f (filter (\<lambda>i. members (step k b) ! i \<noteq> AwaitAuth \<and> answers_token (auth_out i))
                            [0..<?n]))
              = add_mset (f k) (mset (map f (filter ?I [0..<?n])))"
        using k AwaitAuth mk yes other
        by (intro mset_filter_upt_gain) auto
      with J w len show ?thesis by simp
    qed
  next
    case (AwaitToken token)
    with inv k show ?thesis by (auto simp: batch_inv_def)
  next
    case AwaitApi
    then have w: "world (step k b) = world b"
      using k by (simp add: step_def resume_def split: sum.splits)
    from AwaitApi k have "members (step k b) ! k \<noteq> AwaitAuth"
      by (simp add: step_def resume_def split: sum.splits)
    with AwaitApi other
    have "filter (\<lambda>i. members (step k b) ! i \<noteq> AwaitAuth \<and> answers_token (auth_out i)) [0..<?n]
              = filter ?I [0..<?n]"
      by (intro filter_upt_same) (metis member.distinct(3))
    with J w len show ?thesis by simp
  next
    case (Settled r)
    with k have "step k b = b" by (simp add: step_def resume_def)
    with J show ?thesis by simp
  qed
qed

lemma fold_resume_submitted:
  fixes P vaultId chain options transactions auth_out api_out
  defines "step \<equiv> resume P vaultId chain options transactions auth_out api_out"
  defines "f \<equiv> \<lambda>i. Some (stringify_body P (member_body P vaultId chain options transactions i))"
  assumes "batch_inv auth_out R b"
      and "R = member_result P vaultId chain options transactions auth_out api_out"
      and "mset (submitted base (world b)) =
                M + mset (map f (filter (\<lambda>i. members b ! i \<noteq> AwaitAuth \<and> answers_token (auth_out i))
                                   [0..<length (members b)]))"
      and "baseURL (client b) = base"
  shows "mset (submitted base (world (fold step xs b))) =
           M + mset (map f (filter (\<lambda>i. members (fold step xs b) ! i \<noteq> AwaitAuth \<and>
                                        answers_token (auth_out i))
                              [0..<length (members (fold step xs b))]))"
  using assms(3-6)
proof (induction xs arbitrary: b)
  case Nil
  then show ?case by simp
next
  case (Cons x xs)
  have 1: "batch_inv auth_out R (step x b)"
    unfolding step_def using Cons.prems(1,2) by (rule resume_inv)
  have 2: "mset (submitted base (world (step x b))) =
           M + mset (map f (filter (\<lambda>i. members (step x b) ! i \<noteq> AwaitAuth \<and> answers_token (auth_out i))
                              [0..<length (members (step x b))]))"
    unfolding step_def f_def
    using Cons.prems(1,3,4) unfolding step_def f_def by (rule resume_submitted)
  have 3: "baseURL (client (step x b)) = base"
    using resume_calls [of b P vaultId chain options transactions auth_out api_out x] Cons.prems(4)
    by (simp add: step_def)
  from Cons.IH [OF 1 Cons.prems(2) 2 3] show ?case by simp
qed

text \<open>
  C2. Whatever the order in which the answers arrive, the submissions that a batch call hands to
  axios are, each as often as it occurs, the JSON texts of the bodies of those members whose
  call to \<^verbatim>\<open>/auth\<close> was answered with a token. The body of member \<open>i\<close> has as
  \<^verbatim>\<open>idempotence_id\<close> the base key, a hyphen and the decimal index \<open>i\<close> when the options
  hold a non-empty base key, and \<^verbatim>\<open>undefined\<close>, so that the JSON text has no such property,
  when they hold none or an empty one.
\<close>

theorem batch_submissions:
  "mset (submitted ''https://api.fordefi.com''
           (snd (signAndSendTransactions P vaultId chain options transactions auth_out api_out
                   schedule w)))
     = mset (submitted ''https://api.fordefi.com'' w) +
       mset (map (\<lambda>i. Some (stringify_body P (member_body P vaultId chain options transactions i)))
                 (filter (\<lambda>i. answers_token (auth_out i)) [0..<length transactions])) \<and>
   (\<forall>i<length transactions.
      js_prop (member_body P vaultId chain options transactions i) ''idempotence_id'' =
        (case idempotenceId options of
           None \<Rightarrow> JUndefined
         | Some base \<Rightarrow> if base = [] then JUndefined else JStr (base @ ''-'' @ dec i)))"
proof (intro conjI allI impI)
  let ?c0 = "FordefiClient_new (env_api_key P) (env_api_secret P) None"
  let ?n = "length transactions"
  let ?R = "member_result P vaultId chain options transactions auth_out api_out"
  let ?f = "\<lambda>i. Some (stringify_body P (member_body P vaultId chain options transactions i))"
  let ?base = "''https://api.fordefi.com''"
  define b0 where "b0 = \<lparr> client = ?c0, world = w, members = [], rejection = None \<rparr>"
  define b1 where "b1 = fold (\<lambda>tx. member_start P) transactions b0"
  define b2 where "b2 = fold (resume P vaultId chain options transactions auth_out api_out)
                          (schedule @ [0..<?n] @ [0..<?n]) b1"
  have res: "snd (signAndSendTransactions P vaultId chain options transactions auth_out api_out
                    schedule w) = world b2"
    by (simp add: signAndSendTransactions_def Let_def b2_def b1_def b0_def)
  have base: "baseURL ?c0 = ?base"
    by (simp add: FordefiClient_new_def truthy_str_def)
  have nt: "\<not> truthy_str (accessToken (client b0))" by (simp add: b0_def)
  from fold_member_start [OF nt, of P transactions]
  have m1: "members b1 = replicate ?n AwaitAuth" and c1: "client b1 = ?c0"
    and r1: "rejection b1 = None"
    by (simp_all add: b1_def b0_def)
  from fold_member_start_submitted [OF nt, of P transactions]
  have s1: "submitted ?base (world b1) = submitted ?base w"
    by (simp add: b1_def b0_def base)
  have inv1: "batch_inv auth_out ?R b1"
    using m1 r1 by (simp add: batch_inv_def)
  have "filter (\<lambda>i. members b1 ! i \<noteq> AwaitAuth \<and> answers_token (auth_out i)) [0..<length (members b1)]
          = []"
    using m1 by (simp add: filter_empty_conv)
  with s1 have J1: "mset (submitted ?base (world b1)) =
      mset (submitted ?base w) +
      mset (map ?f (filter (\<lambda>i. members b1 ! i \<noteq> AwaitAuth \<and> answers_token (auth_out i))
                      [0..<length (members b1)]))"
    by simp
  have b1base: "baseURL (client b1) = ?base" using c1 base by simp
  from fold_resume_submitted [OF inv1 refl J1 b1base, of "schedule @ [0..<?n] @ [0..<?n]"]
  have J2: "mset (submitted ?base (world b2)) =
      mset (submitted ?base w) +
      mset (map ?f (filter (\<lambda>i. members b2 ! i \<noteq> AwaitAuth \<and> answers_token (auth_out i))
                      [0..<length (members b2)]))"
    by (simp only: b2_def)
  from batch_settles [of P vaultId chain options transactions auth_out api_out schedule _ _ w]
  have m2: "members b2 = map (\<lambda>i. Settled (?R i)) [0..<?n]"
    unfolding b2_def b1_def b0_def by blast
  then have "filter (\<lambda>i. members b2 ! i \<noteq> AwaitAuth \<and> answers_token (auth_out i))
                [0..<length (members b2)]
              = filter (\<lambda>i. answers_token (auth_out i)) [0..<?n]"
    by (intro filter_cong) auto
  with J2 res
  show "mset (submitted ?base
           (snd (signAndSendTransactions P vaultId chain options transactions auth_out api_out
                   schedule w)))
     = mset (submitted ?base w) +
       mset (map ?f (filter (\<lambda>i. answers_token (auth_out i)) [0..<?n]))"
    by simp
next
  fix i
  show "js_prop (member_body P vaultId chain options transactions i) ''idempotence_id'' =
        (case idempotenceId options of
           None \<Rightarrow> JUndefined
         | Some base \<Rightarrow> if base = [] then JUndefined else JStr (base @ ''-'' @ dec i))"
    by (simp add: member_body_def js_prop_createAndWait_body member_options_def truthy_str_def
          opt_str_def split: option.splits)
qed

theorem batch_submissions_witness:
  "mset (submitted ''https://api.fordefi.com''
           (snd (signAndSendTransactions jobs_node ''vault'' ''solana_mainnet'' keyed [tx0, tx0]
                   (\<lambda>i. token_ok) signed_twice [1, 0] world0)))
     = mset [sample_body (JStr ''base-0''), sample_body (JStr ''base-1'')] \<and>
   js_prop (member_body jobs_node ''vault'' ''solana_mainnet'' keyed [tx0, tx0] 1) ''idempotence_id''
     = JStr ''base-1'' \<and>
   mset (submitted ''https://api.fordefi.com''
           (snd (signAndSendTransactions jobs_node ''vault'' ''solana_mainnet'' no_options [tx0, tx0]
                   (\<lambda>i. token_ok) signed_twice [1, 0] world0)))
     = mset [sample_body JUndefined, sample_body JUndefined] \<and>
   js_prop (member_body jobs_node ''vault'' ''solana_mainnet'' no_options [tx0, tx0] 1)
      ''idempotence_id'' = JUndefined"
proof -
  have w: "submitted ''https://api.fordefi.com'' world0 = []" by code_simp
  have k: "map (\<lambda>i. Some (stringify_body jobs_node
                       (member_body jobs_node ''vault'' ''solana_mainnet'' keyed [tx0, tx0] i)))
               (filter (\<lambda>i. answers_token ((\<lambda>i. token_ok) i)) [0..<length [tx0, tx0]])
             = [sample_body (JStr ''base-0''), sample_body (JStr ''base-1'')]"
    by code_simp
  have n: "map (\<lambda>i. Some (stringify_body jobs_node
                       (member_body jobs_node ''vault'' ''solana_mainnet'' no_options [tx0, tx0] i)))
               (filter (\<lambda>i. answers_token ((\<lambda>i. token_ok) i)) [0..<length [tx0, tx0]])
             = [sample_body JUndefined, sample_body JUndefined]"
    by code_simp
  have d: "dec 1 = ''1''" by code_simp
  have l: "(1::nat) < length [tx0, tx0]" by simp
  note a = batch_submissions [of jobs_node "''vault''" "''solana_mainnet''" keyed "[tx0, tx0]"
             "\<lambda>i. token_ok" signed_twice "[1, 0]" world0]
  note b = batch_submissions [of jobs_node "''vault''" "''solana_mainnet''" no_options "[tx0, tx0]"
             "\<lambda>i. token_ok" signed_twice "[1, 0]" world0]
  from a w k have a1: "mset (submitted ''https://api.fordefi.com''
           (snd (signAndSendTransactions jobs_node ''vault'' ''solana_mainnet'' keyed [tx0, tx0]
                   (\<lambda>i. token_ok) signed_twice [1, 0] world0)))
     = mset [sample_body (JStr ''base-0''), sample_body (JStr ''base-1'')]"
    by (simp only: mset.simps list.map empty_neutral)
  from a l d have a2: "js_prop (member_body jobs_node ''vault'' ''solana_mainnet'' keyed [tx0, tx0] 1)
      ''idempotence_id'' = JStr ''base-1''"
    by (simp add: keyed_def no_options_def)
  from b w n have b1: "mset (submitted ''https://api.fordefi.com''
           (snd (signAndSendTransactions jobs_node ''vault'' ''solana_mainnet'' no_options [tx0, tx0]
                   (\<lambda>i. token_ok) signed_twice [1, 0] world0)))
     = mset [sample_body JUndefined, sample_body JUndefined]"
    by (simp only: mset.simps list.map empty_neutral)
  from b l have b2: "js_prop (member_body jobs_node ''vault'' ''solana_mainnet'' no_options [tx0, tx0] 1)
      ''idempotence_id'' = JUndefined"
    by (simp add: no_options_def)
  from a1 a2 b1 b2 show ?thesis by blast
qed

text \<open>
  C2 as stated, for every base key that was supplied, fails at the empty string: the two
  submissions of a batch of two carry no idempotence id, not the ids \<^verbatim>\<open>-0\<close> and \<^verbatim>\<open>-1\<close>.
\<close>

theorem empty_base_key_counterexample:
  "idempotenceId empty_key = Some [] \<and>
   submitted ''https://api.fordefi.com''
     (snd (signAndSendTransactions jobs_node ''vault'' ''solana_mainnet'' empty_key [tx0, tx0]
             (\<lambda>i. token_ok) signed_twice [] world0))
     = [sample_body JUndefined, sample_body JUndefined] \<and>
   sample_body JUndefined \<noteq> sample_body (JStr ([] @ ''-'' @ dec 0)) \<and>
   sample_body JUndefined \<noteq> sample_body (JStr ([] @ ''-'' @ dec 1))"
  by code_simp

end
